theory Spec2Isabelle
  imports Complex_Main "HOL-Library.Multiset"
begin

section \<open>Domain (internal/domain/incident.go)\<close>

text \<open>
  A \<open>time.Time\<close> is taken as the instant it denotes, in nanoseconds on a linear scale; its
  location and its monotonic reading are left out. Go's \<open>int\<close> is taken unbounded.
\<close>

type_synonym Time = int

record Incident =
  ID :: int
  Title :: string
  Description :: string
  AffectedService :: string
  AISeverity :: string
  AICategory :: string
  CreatedAt :: Time
  UpdatedAt :: Time

text \<open>The request struct has the field names of \<open>Incident\<close>; they are prefixed here.\<close>

record CreateIncidentRequest =
  reqTitle :: string
  reqDescription :: string
  reqAffectedService :: string

record IncidentAnalysis =
  Severity :: string
  Category :: string

text \<open>
  Go errors. \<open>ErrorString m\<close> is an error made by \<open>fmt.Errorf\<close> or \<open>errors.New\<close> whose message
  is \<open>m\<close>; \<open>Wrap p e\<close> is \<open>fmt.Errorf(p + ": %w", e)\<close>; \<open>ErrNoRows\<close> is the sentinel
  \<open>sql.ErrNoRows\<close>; the last two are the failures of \<open>json.Unmarshal\<close>.
\<close>

datatype error =
    ErrNoRows
  | ErrorString string
  | Wrap string error
  | SyntaxError
  | UnmarshalTypeError string

text \<open>The interfaces \<open>IncidentRepository\<close> and \<open>AIService\<close>. A repository works on a
  state \<open>'s\<close>; \<open>Create\<close> and \<open>Update\<close> receive a pointer, so they give back the incident as
  they leave it.\<close>

record 's IncidentRepository =
  Create :: "Incident \<Rightarrow> 's \<Rightarrow> (error option \<times> Incident) \<times> 's"
  GetByID :: "int \<Rightarrow> 's \<Rightarrow> (error + Incident) \<times> 's"
  GetAll :: "'s \<Rightarrow> (error + Incident list) \<times> 's"
  Update :: "Incident \<Rightarrow> 's \<Rightarrow> (error option \<times> Incident) \<times> 's"
  Delete :: "int \<Rightarrow> 's \<Rightarrow> error option \<times> 's"

record AIService =
  AnalyzeIncident :: "string \<Rightarrow> string \<Rightarrow> string \<Rightarrow> error + IncidentAnalysis"

section \<open>Formatting of \<open>%d\<close>\<close>

function natToStr :: "nat \<Rightarrow> string" where
  "natToStr n =
     (if n < 10 then [''0123456789'' ! n]
      else natToStr (n div 10) @ [''0123456789'' ! (n mod 10)])"
  by pat_completeness auto
termination
  by (relation "measure id") auto

declare natToStr.simps [simp del]

definition Itoa :: "int \<Rightarrow> string" where
  "Itoa i = (if i < 0 then CHR ''-'' # natToStr (nat (- i)) else natToStr (nat i))"

section \<open>The database behind \<open>sql.DB\<close> (migrations/001_create_incidents_table.up.sql)\<close>

text \<open>The five statements the repository sends, with their arguments.\<close>

datatype statement =
    INSERT Incident
  | SELECT_WHERE_id int
  | SELECT_ORDER_BY_created_at
  | UPDATE Incident
  | DELETE int

text \<open>
  The table \<open>incidents\<close> is the list of its rows in insertion order, with the counter of
  the \<open>AUTO_INCREMENT\<close> key.
  \<^item> \<open>failure\<close> gives, for a statement the driver or the server does not execute (no
    connection, a value the column types of the migration refuse), the error returned
    instead; \<open>None\<close> means the statement is executed.
  \<^item> \<open>timestamp_column\<close> is what a \<open>TIMESTAMP\<close> column keeps of an instant written to it:
    \<open>created_at\<close> and \<open>updated_at\<close> are declared without fractional seconds, so the server
    keeps whole seconds (\<open>whole_seconds\<close> below).
  \<^item> \<open>scan_failure\<close> gives the error of \<open>Scan\<close> on a row it cannot convert into the struct
    (the migration lets \<open>created_at\<close> and \<open>updated_at\<close> be \<open>NULL\<close>, which does not scan into
    a \<open>time.Time\<close>); \<open>None\<close> means the row scans.
  \<^item> \<open>iteration_failure\<close> is \<open>Some (n, err)\<close> when the result set of a query breaks off with
    \<open>err\<close> after \<open>n\<close> rows, which \<open>rows.Err()\<close> then reports.
\<close>

record sql_DB =
  table_incidents :: "Incident list"
  auto_increment :: int
  failure :: "statement \<Rightarrow> error option"
  timestamp_column :: "Time \<Rightarrow> Time"
  scan_failure :: "Incident \<Rightarrow> error option"
  iteration_failure :: "(nat \<times> error) option"

text \<open>Rounding to the second, as MySQL does with a fractional part a column has no digits
  for.\<close>

definition whole_seconds :: "Time \<Rightarrow> Time" where
  "whole_seconds t = (t + 500000000) div 1000000000 * 1000000000"

text \<open>The result set of a query: the rows \<open>Next\<close> delivers, and the error \<open>Err\<close> reports
  after the last of them.\<close>

record sql_Rows =
  rows_Next :: "Incident list"
  rows_Err :: "error option"

record sql_Result =
  lastInsertId :: int
  rowsAffected :: int

text \<open>The accessors of \<open>sql.Result\<close> return a value and an error; the MySQL driver's never fail.\<close>

definition LastInsertId :: "sql_Result \<Rightarrow> error + int" where
  "LastInsertId result = Inr (lastInsertId result)"

definition RowsAffected :: "sql_Result \<Rightarrow> error + int" where
  "RowsAffected result = Inr (rowsAffected result)"

text \<open>\<open>INSERT INTO incidents (title, ..., updated_at) VALUES (?, ..., ?)\<close>: the id of the
  argument is not sent; the row gets the next key, and its two timestamps are what the
  columns keep of the instants sent.\<close>

definition Exec_INSERT :: "Incident \<Rightarrow> sql_DB \<Rightarrow> (error + sql_Result) \<times> sql_DB" where
  "Exec_INSERT incident db =
     (case failure db (INSERT incident) of
        Some err \<Rightarrow> (Inl err, db)
      | None \<Rightarrow>
          (Inr \<lparr>lastInsertId = auto_increment db, rowsAffected = 1\<rparr>,
           db\<lparr>table_incidents := table_incidents db @
                [incident\<lparr>ID := auto_increment db,
                   CreatedAt := timestamp_column db (CreatedAt incident),
                   UpdatedAt := timestamp_column db (UpdatedAt incident)\<rparr>],
              auto_increment := auto_increment db + 1\<rparr>))"

text \<open>\<open>Scan\<close> of a row into the fields of the struct.\<close>

definition Scan :: "sql_DB \<Rightarrow> Incident \<Rightarrow> error + Incident" where
  "Scan db row = (case scan_failure db row of Some err \<Rightarrow> Inl err | None \<Rightarrow> Inr row)"

text \<open>\<open>SELECT ... FROM incidents WHERE id = ?\<close> through \<open>QueryRow(...).Scan(...)\<close>: the error
  of the query, or \<open>sql.ErrNoRows\<close>, or the scan of the first row with the id.\<close>

definition QueryRow_SELECT_by_id :: "int \<Rightarrow> sql_DB \<Rightarrow> error + Incident" where
  "QueryRow_SELECT_by_id id' db =
     (case failure db (SELECT_WHERE_id id') of
        Some err \<Rightarrow> Inl err
      | None \<Rightarrow>
          (case find (\<lambda>row. ID row = id') (table_incidents db) of
             None \<Rightarrow> Inl ErrNoRows
           | Some row \<Rightarrow> Scan db row))"

text \<open>\<open>SELECT ... FROM incidents ORDER BY created_at DESC\<close>: the server sorts the rows; the
  result set delivers them all, or breaks off.\<close>

definition ORDER_BY_created_at_DESC :: "Incident list \<Rightarrow> Incident list" where
  "ORDER_BY_created_at_DESC rows = sort_key (\<lambda>row. - CreatedAt row) rows"

definition Query_SELECT_all :: "sql_DB \<Rightarrow> error + sql_Rows" where
  "Query_SELECT_all db =
     (case failure db SELECT_ORDER_BY_created_at of
        Some err \<Rightarrow> Inl err
      | None \<Rightarrow>
          (case iteration_failure db of
             None \<Rightarrow>
               Inr \<lparr>rows_Next = ORDER_BY_created_at_DESC (table_incidents db), rows_Err = None\<rparr>
           | Some (n, err) \<Rightarrow>
               Inr \<lparr>rows_Next = take n (ORDER_BY_created_at_DESC (table_incidents db)),
                    rows_Err = Some err\<rparr>))"

text \<open>\<open>UPDATE incidents SET title = ?, description = ?, affected_service = ?, ai_severity = ?,
  ai_category = ?, updated_at = ? WHERE id = ?\<close>. The connection string of
  internal/config/database.go does not ask for \<open>clientFoundRows\<close>, so MySQL counts the rows
  it changed, not the rows it matched. \<open>updated_at\<close> gets what the column keeps of the
  instant sent.\<close>

definition SET_columns :: "sql_DB \<Rightarrow> Incident \<Rightarrow> Incident \<Rightarrow> Incident" where
  "SET_columns db incident row =
     row\<lparr>Title := Title incident, Description := Description incident,
         AffectedService := AffectedService incident, AISeverity := AISeverity incident,
         AICategory := AICategory incident,
         UpdatedAt := timestamp_column db (UpdatedAt incident)\<rparr>"

definition Exec_UPDATE :: "Incident \<Rightarrow> sql_DB \<Rightarrow> (error + sql_Result) \<times> sql_DB" where
  "Exec_UPDATE incident db =
     (case failure db (UPDATE incident) of
        Some err \<Rightarrow> (Inl err, db)
      | None \<Rightarrow>
          (Inr \<lparr>lastInsertId = 0,
                rowsAffected = int (length (filter
                  (\<lambda>row. ID row = ID incident \<and> SET_columns db incident row \<noteq> row)
                  (table_incidents db)))\<rparr>,
           db\<lparr>table_incidents := map
                  (\<lambda>row. if ID row = ID incident then SET_columns db incident row else row)
                  (table_incidents db)\<rparr>))"

text \<open>\<open>DELETE FROM incidents WHERE id = ?\<close>.\<close>

definition Exec_DELETE :: "int \<Rightarrow> sql_DB \<Rightarrow> (error + sql_Result) \<times> sql_DB" where
  "Exec_DELETE id' db =
     (case failure db (DELETE id') of
        Some err \<Rightarrow> (Inl err, db)
      | None \<Rightarrow>
          (Inr \<lparr>lastInsertId = 0,
                rowsAffected = int (length (filter (\<lambda>row. ID row = id') (table_incidents db)))\<rparr>,
           db\<lparr>table_incidents := filter (\<lambda>row. ID row \<noteq> id') (table_incidents db)\<rparr>))"

section \<open>MySQLIncidentRepository (internal/repository)\<close>

text \<open>\<open>fmt.Errorf("incident not found with id %d", id)\<close>, made at three places.\<close>

definition incident_not_found :: "int \<Rightarrow> error" where
  "incident_not_found id' = ErrorString (''incident not found with id '' @ Itoa id')"

definition MySQLIncidentRepository_Create ::
  "Incident \<Rightarrow> sql_DB \<Rightarrow> (error option \<times> Incident) \<times> sql_DB" where
  "MySQLIncidentRepository_Create incident db =
     (case Exec_INSERT incident db of
        (Inl err, db') \<Rightarrow> ((Some (Wrap ''failed to create incident'' err), incident), db')
      | (Inr result, db') \<Rightarrow>
          (case LastInsertId result of
             Inl err \<Rightarrow> ((Some (Wrap ''failed to get last insert id'' err), incident), db')
           | Inr id' \<Rightarrow> ((None, incident\<lparr>ID := id'\<rparr>), db')))"

definition MySQLIncidentRepository_GetByID ::
  "int \<Rightarrow> sql_DB \<Rightarrow> (error + Incident) \<times> sql_DB" where
  "MySQLIncidentRepository_GetByID id' db =
     (case QueryRow_SELECT_by_id id' db of
        Inl err \<Rightarrow>
          (if err = ErrNoRows
           then (Inl (incident_not_found id'), db)
           else (Inl (Wrap ''failed to get incident'' err), db))
      | Inr incident \<Rightarrow> (Inr incident, db))"

text \<open>The loop \<open>for rows.Next()\<close>: it returns at the first row that does not scan.\<close>

fun scan_rows :: "sql_DB \<Rightarrow> Incident list \<Rightarrow> Incident list \<Rightarrow> error + Incident list" where
  "scan_rows db [] incidents = Inr incidents"
| "scan_rows db (row # rows) incidents =
     (case Scan db row of
        Inl err \<Rightarrow> Inl (Wrap ''failed to scan incident'' err)
      | Inr incident \<Rightarrow> scan_rows db rows (incidents @ [incident]))"

text \<open>After the loop, \<open>rows.Err()\<close> is checked.\<close>

definition MySQLIncidentRepository_GetAll ::
  "sql_DB \<Rightarrow> (error + Incident list) \<times> sql_DB" where
  "MySQLIncidentRepository_GetAll db =
     (case Query_SELECT_all db of
        Inl err \<Rightarrow> (Inl (Wrap ''failed to query incidents'' err), db)
      | Inr rows \<Rightarrow>
          (case scan_rows db (rows_Next rows) [] of
             Inl err \<Rightarrow> (Inl err, db)
           | Inr incidents \<Rightarrow>
               (case rows_Err rows of
                  Some err \<Rightarrow> (Inl (Wrap ''error iterating incidents'' err), db)
                | None \<Rightarrow> (Inr incidents, db))))"

definition MySQLIncidentRepository_Update ::
  "Incident \<Rightarrow> sql_DB \<Rightarrow> (error option \<times> Incident) \<times> sql_DB" where
  "MySQLIncidentRepository_Update incident db =
     (case Exec_UPDATE incident db of
        (Inl err, db') \<Rightarrow> ((Some (Wrap ''failed to update incident'' err), incident), db')
      | (Inr result, db') \<Rightarrow>
          (case RowsAffected result of
             Inl err \<Rightarrow> ((Some (Wrap ''failed to get rows affected'' err), incident), db')
           | Inr n \<Rightarrow>
               (if n = 0
                then ((Some (incident_not_found (ID incident)), incident), db')
                else ((None, incident), db'))))"

definition MySQLIncidentRepository_Delete ::
  "int \<Rightarrow> sql_DB \<Rightarrow> error option \<times> sql_DB" where
  "MySQLIncidentRepository_Delete id' db =
     (case Exec_DELETE id' db of
        (Inl err, db') \<Rightarrow> (Some (Wrap ''failed to delete incident'' err), db')
      | (Inr result, db') \<Rightarrow>
          (case RowsAffected result of
             Inl err \<Rightarrow> (Some (Wrap ''failed to get rows affected'' err), db')
           | Inr n \<Rightarrow>
               (if n = 0
                then (Some (incident_not_found id'), db')
                else (None, db'))))"

definition NewMySQLIncidentRepository :: "sql_DB IncidentRepository" where
  "NewMySQLIncidentRepository =
     \<lparr>Create = MySQLIncidentRepository_Create,
      GetByID = MySQLIncidentRepository_GetByID,
      GetAll = MySQLIncidentRepository_GetAll,
      Update = MySQLIncidentRepository_Update,
      Delete = MySQLIncidentRepository_Delete\<rparr>"

section \<open>IncidentUseCase (internal/usecase)\<close>

record 's IncidentUseCase =
  incidentRepo :: "'s IncidentRepository"
  aiService :: AIService

definition NewIncidentUseCase :: "'s IncidentRepository \<Rightarrow> AIService \<Rightarrow> 's IncidentUseCase" where
  "NewIncidentUseCase repo ai = \<lparr>incidentRepo = repo, aiService = ai\<rparr>"

text \<open>\<open>CreateIncident\<close> reads the clock twice (\<open>now1\<close> for \<open>CreatedAt\<close>, \<open>now2\<close> for
  \<open>UpdatedAt\<close>), \<open>UpdateIncident\<close> once.\<close>

definition CreateIncident ::
  "'s IncidentUseCase \<Rightarrow> CreateIncidentRequest \<Rightarrow> Time \<Rightarrow> Time \<Rightarrow> 's \<Rightarrow> (error + Incident) \<times> 's" where
  "CreateIncident uc req now1 now2 s =
     (case AnalyzeIncident (aiService uc)
             (reqTitle req) (reqDescription req) (reqAffectedService req) of
        Inl err \<Rightarrow> (Inl err, s)
      | Inr analysis \<Rightarrow>
          (let incident = \<lparr>ID = 0, Title = reqTitle req, Description = reqDescription req,
                 AffectedService = reqAffectedService req, AISeverity = Severity analysis,
                 AICategory = Category analysis, CreatedAt = now1, UpdatedAt = now2\<rparr>
           in case Create (incidentRepo uc) incident s of
                ((Some err, incident'), s') \<Rightarrow> (Inl err, s')
              | ((None, incident'), s') \<Rightarrow> (Inr incident', s')))"

definition GetIncident :: "'s IncidentUseCase \<Rightarrow> int \<Rightarrow> 's \<Rightarrow> (error + Incident) \<times> 's" where
  "GetIncident uc id' s = GetByID (incidentRepo uc) id' s"

definition GetAllIncidents :: "'s IncidentUseCase \<Rightarrow> 's \<Rightarrow> (error + Incident list) \<times> 's" where
  "GetAllIncidents uc s = GetAll (incidentRepo uc) s"

definition UpdateIncident ::
  "'s IncidentUseCase \<Rightarrow> int \<Rightarrow> CreateIncidentRequest \<Rightarrow> Time \<Rightarrow> 's \<Rightarrow> (error + Incident) \<times> 's" where
  "UpdateIncident uc id' req now s =
     (case GetByID (incidentRepo uc) id' s of
        (Inl err, s') \<Rightarrow> (Inl err, s')
      | (Inr incident, s') \<Rightarrow>
          (case AnalyzeIncident (aiService uc)
                  (reqTitle req) (reqDescription req) (reqAffectedService req) of
             Inl err \<Rightarrow> (Inl err, s')
           | Inr analysis \<Rightarrow>
               (let incident1 = incident\<lparr>Title := reqTitle req,
                      Description := reqDescription req,
                      AffectedService := reqAffectedService req,
                      AISeverity := Severity analysis,
                      AICategory := Category analysis,
                      UpdatedAt := now\<rparr>
                in case Update (incidentRepo uc) incident1 s' of
                     ((Some err, incident2), s'') \<Rightarrow> (Inl err, s'')
                   | ((None, incident2), s'') \<Rightarrow> (Inr incident2, s''))))"

definition DeleteIncident :: "'s IncidentUseCase \<Rightarrow> int \<Rightarrow> 's \<Rightarrow> error option \<times> 's" where
  "DeleteIncident uc id' s = Delete (incidentRepo uc) id' s"

section \<open>JSON text (encoding/json, as far as \<open>json.Unmarshal\<close> into \<open>IncidentAnalysis\<close> goes)\<close>

text \<open>
  Strings are byte lists. A document is scanned into tokens and the tokens are parsed with
  a stack, one token at a time. The grammar is the one of Go's scanner: white space is space,
  tab, carriage return and line feed; a string has no byte below 0x20 and the escapes
  \<open>\" \\ \/ \b \f \n \r \t \uXXXX\<close>; a number is \<open>-?(0|[1-9][0-9]*)(\.[0-9]+)?([eE][+-]?[0-9]+)?\<close>;
  the literals are \<open>true\<close>, \<open>false\<close>, \<open>null\<close>; any value may stand at the top; the nesting is
  limited to 10000. Escapes \<open>\uXXXX\<close> are decoded to UTF-8, surrogate pairs joined and lone
  surrogates replaced by U+FFFD. Of the bytes from 0x80 on, a well-formed UTF-8 sequence is
  kept and a byte that begins none is replaced by U+FFFD.
\<close>

datatype json =
    JNull
  | JBool bool
  | JNumber string
  | JString string
  | JArray "json list"
  | JObject "(string \<times> json) list"

definition isSpace :: "char \<Rightarrow> bool" where
  "isSpace c \<longleftrightarrow> c = CHR '' '' \<or> c = CHR 0x09 \<or> c = CHR 0x0D \<or> c = CHR 0x0A"

definition isDigit :: "char \<Rightarrow> bool" where
  "isDigit c \<longleftrightarrow> (48::nat) \<le> of_char c \<and> (of_char c :: nat) \<le> 57"

definition hexval :: "char \<Rightarrow> nat option" where
  "hexval c =
     (let n = (of_char c :: nat) in
      if 48 \<le> n \<and> n \<le> 57 then Some (n - 48)
      else if 97 \<le> n \<and> n \<le> 102 then Some (n - 87)
      else if 65 \<le> n \<and> n \<le> 70 then Some (n - 55)
      else None)"

definition getu4 :: "string \<Rightarrow> nat option" where
  "getu4 s =
     (case s of
        [a, b, c, d] \<Rightarrow>
          (case (hexval a, hexval b, hexval c, hexval d) of
             (Some x, Some y, Some z, Some w) \<Rightarrow> Some (((x * 16 + y) * 16 + z) * 16 + w)
           | _ \<Rightarrow> None)
      | _ \<Rightarrow> None)"

definition EncodeRune :: "nat \<Rightarrow> string" where
  "EncodeRune r =
     (if r < 0x80 then [char_of r]
      else if r < 0x800 then [char_of (0xC0 + r div 64), char_of (0x80 + r mod 64)]
      else if r < 0x10000 then
        [char_of (0xE0 + r div 4096), char_of (0x80 + r div 64 mod 64), char_of (0x80 + r mod 64)]
      else
        [char_of (0xF0 + r div 262144), char_of (0x80 + r div 4096 mod 64),
         char_of (0x80 + r div 64 mod 64), char_of (0x80 + r mod 64)])"

fun string_body :: "string \<Rightarrow> (string \<times> string) option" where
  "string_body [] = None"
| "string_body [c] = (if c = CHR 0x22 then Some ([], []) else None)"
| "string_body (c # e # cs) =
     (if c = CHR 0x22 then Some ([], e # cs)
      else if c = CHR 0x5C then map_option (\<lambda>(b, r). (c # e # b, r)) (string_body cs)
      else map_option (\<lambda>(b, r). (c # b, r)) (string_body (e # cs)))"

text \<open>\<open>utf8.DecodeRune\<close>, as far as \<open>unquote\<close> needs it: the number of bytes of the
  well-formed UTF-8 sequence a string begins with, or 0 when it begins with none. The first
  byte fixes the length and the range of the second byte.\<close>

definition isCont :: "char \<Rightarrow> bool" where
  "isCont c \<longleftrightarrow> (0x80::nat) \<le> of_char c \<and> (of_char c :: nat) \<le> 0xBF"

definition secondByteOk :: "nat \<Rightarrow> char \<Rightarrow> bool" where
  "secondByteOk b0 c1 =
     (let b1 = (of_char c1 :: nat) in
      if b0 = 0xE0 then 0xA0 \<le> b1 \<and> b1 \<le> 0xBF
      else if b0 = 0xED then 0x80 \<le> b1 \<and> b1 \<le> 0x9F
      else if b0 = 0xF0 then 0x90 \<le> b1 \<and> b1 \<le> 0xBF
      else if b0 = 0xF4 then 0x80 \<le> b1 \<and> b1 \<le> 0x8F
      else 0x80 \<le> b1 \<and> b1 \<le> 0xBF)"

definition DecodeRune_size :: "string \<Rightarrow> nat" where
  "DecodeRune_size s =
     (case s of
        [] \<Rightarrow> 0
      | c0 # r \<Rightarrow>
          (let b0 = (of_char c0 :: nat) in
           if 0xC2 \<le> b0 \<and> b0 \<le> 0xDF then
             (case r of
                c1 # r1 \<Rightarrow> if secondByteOk b0 c1 then 2 else 0
              | [] \<Rightarrow> 0)
           else if 0xE0 \<le> b0 \<and> b0 \<le> 0xEF then
             (case r of
                c1 # c2 # r2 \<Rightarrow> if secondByteOk b0 c1 \<and> isCont c2 then 3 else 0
              | _ \<Rightarrow> 0)
           else if 0xF0 \<le> b0 \<and> b0 \<le> 0xF4 then
             (case r of
                c1 # c2 # c3 # r3 \<Rightarrow>
                  if secondByteOk b0 c1 \<and> isCont c2 \<and> isCont c3 then 4 else 0
              | _ \<Rightarrow> 0)
           else 0))"

fun unquote :: "string \<Rightarrow> string option" where
  "unquote [] = Some []"
| "unquote (c # cs) =
     (if c = CHR 0x5C then
        (case cs of
           [] \<Rightarrow> None
         | e # r \<Rightarrow>
             if e = CHR ''u'' then
               (case getu4 (take 4 r) of
                  None \<Rightarrow> None
                | Some rr \<Rightarrow>
                    if 0xD800 \<le> rr \<and> rr < 0xE000 then
                      (case (if take 2 (drop 4 r) = [CHR 0x5C, CHR ''u'']
                             then getu4 (take 4 (drop 6 r)) else None) of
                         None \<Rightarrow> map_option (\<lambda>s. EncodeRune 0xFFFD @ s) (unquote (drop 4 r))
                       | Some rr1 \<Rightarrow>
                           if rr < 0xDC00 \<and> 0xDC00 \<le> rr1 \<and> rr1 < 0xE000
                           then map_option
                                  (\<lambda>s. EncodeRune ((rr - 0xD800) * 1024 + (rr1 - 0xDC00) + 0x10000) @ s)
                                  (unquote (drop 10 r))
                           else map_option (\<lambda>s. EncodeRune 0xFFFD @ s) (unquote (drop 4 r)))
                    else map_option (\<lambda>s. EncodeRune rr @ s) (unquote (drop 4 r)))
             else if e = CHR 0x22 \<or> e = CHR 0x5C \<or> e = CHR ''/'' then map_option (Cons e) (unquote r)
             else if e = CHR ''b'' then map_option (Cons (CHR 0x08)) (unquote r)
             else if e = CHR ''f'' then map_option (Cons (CHR 0x0C)) (unquote r)
             else if e = CHR ''n'' then map_option (Cons (CHR 0x0A)) (unquote r)
             else if e = CHR ''r'' then map_option (Cons (CHR 0x0D)) (unquote r)
             else if e = CHR ''t'' then map_option (Cons (CHR 0x09)) (unquote r)
             else None)
      else if (of_char c :: nat) < 0x20 then None
      else if (of_char c :: nat) < 0x80 then map_option (Cons c) (unquote cs)
      else if DecodeRune_size (c # cs) = 0
        then map_option (\<lambda>s. EncodeRune 0xFFFD @ s) (unquote cs)
      else map_option (\<lambda>s. take (DecodeRune_size (c # cs)) (c # cs) @ s)
             (unquote (drop (DecodeRune_size (c # cs) - 1) cs)))"

datatype token =
    TLBrace | TRBrace | TLBracket | TRBracket | TColon | TComma
  | TString string | TNumber string | TTrue | TFalse | TNull

definition isNumberChar :: "char \<Rightarrow> bool" where
  "isNumberChar c \<longleftrightarrow>
     isDigit c \<or> c = CHR ''-'' \<or> c = CHR ''+'' \<or> c = CHR ''.'' \<or> c = CHR ''e'' \<or> c = CHR ''E''"

definition validExponent :: "string \<Rightarrow> bool" where
  "validExponent s =
     (case s of
        [] \<Rightarrow> True
      | c # r \<Rightarrow>
          (c = CHR ''e'' \<or> c = CHR ''E'') \<and>
          (let digits = (case r of
                           [] \<Rightarrow> []
                         | d # r' \<Rightarrow> if d = CHR ''+'' \<or> d = CHR ''-'' then r' else r)
           in digits \<noteq> [] \<and> list_all isDigit digits))"

definition validFraction :: "string \<Rightarrow> bool" where
  "validFraction s =
     (case s of
        [] \<Rightarrow> True
      | c # r \<Rightarrow>
          if c = CHR ''.''
          then takeWhile isDigit r \<noteq> [] \<and> validExponent (dropWhile isDigit r)
          else validExponent s)"

definition validNumber :: "string \<Rightarrow> bool" where
  "validNumber s =
     (let s1 = (case s of [] \<Rightarrow> [] | c # r \<Rightarrow> if c = CHR ''-'' then r else s)
      in case s1 of
           [] \<Rightarrow> False
         | c # r \<Rightarrow>
             if c = CHR ''0'' then validFraction r
             else isDigit c \<and> validFraction (dropWhile isDigit r))"

lemma string_body_length:
  "string_body cs = Some (b, r) \<Longrightarrow> length r < length cs"
proof (induction cs arbitrary: b r rule: string_body.induct)
  case 1
  then show ?case by simp
next
  case (2 c)
  then show ?case by (simp split: if_splits)
next
  case (3 c e cs)
  then show ?case by (fastforce split: if_splits)
qed

function tokenize :: "string \<Rightarrow> token list option" where
  "tokenize [] = Some []"
| "tokenize (c # cs) =
     (if isSpace c then tokenize cs
      else if c = CHR ''{'' then map_option (Cons TLBrace) (tokenize cs)
      else if c = CHR ''}'' then map_option (Cons TRBrace) (tokenize cs)
      else if c = CHR ''['' then map_option (Cons TLBracket) (tokenize cs)
      else if c = CHR '']'' then map_option (Cons TRBracket) (tokenize cs)
      else if c = CHR '':'' then map_option (Cons TColon) (tokenize cs)
      else if c = CHR '','' then map_option (Cons TComma) (tokenize cs)
      else if c = CHR 0x22 then
        (case string_body cs of
           None \<Rightarrow> None
         | Some (body, rest) \<Rightarrow>
             (case unquote body of
                None \<Rightarrow> None
              | Some s \<Rightarrow> map_option (Cons (TString s)) (tokenize rest)))
      else if c = CHR ''-'' \<or> isDigit c then
        (if validNumber (c # takeWhile isNumberChar cs)
         then map_option (Cons (TNumber (c # takeWhile isNumberChar cs)))
                (tokenize (dropWhile isNumberChar cs))
         else None)
      else if take 4 (c # cs) = ''true'' then map_option (Cons TTrue) (tokenize (drop 3 cs))
      else if take 5 (c # cs) = ''false'' then map_option (Cons TFalse) (tokenize (drop 4 cs))
      else if take 4 (c # cs) = ''null'' then map_option (Cons TNull) (tokenize (drop 3 cs))
      else None)"
  by pat_completeness auto
termination
  by (relation "measure length")
     (auto simp: less_Suc_eq_le length_dropWhile_le dest!: string_body_length)

datatype frame = FArray "json list" | FObject "(string \<times> json) list" | FKey string

datatype pstate =
    BeginValue | BeginValueOrEmpty | BeginStringOrEmpty | BeginString
  | ObjectKey | EndValue | EndTop json

definition maxNestingDepth :: nat where
  "maxNestingDepth = 10000"

fun depth :: "frame list \<Rightarrow> nat" where
  "depth [] = 0"
| "depth (FKey k # st) = depth st"
| "depth (f # st) = Suc (depth st)"

fun endValue :: "json \<Rightarrow> frame list \<Rightarrow> (pstate \<times> frame list) option" where
  "endValue v [] = Some (EndTop v, [])"
| "endValue v (FArray es # st) = Some (EndValue, FArray (es @ [v]) # st)"
| "endValue v (FKey k # FObject ms # st) = Some (EndValue, FObject (ms @ [(k, v)]) # st)"
| "endValue v st = None"

definition pushFrame :: "pstate \<Rightarrow> frame \<Rightarrow> frame list \<Rightarrow> (pstate \<times> frame list) option" where
  "pushFrame state f st =
     (if depth (f # st) \<le> maxNestingDepth then Some (state, f # st) else None)"

fun beginValue :: "bool \<Rightarrow> token \<Rightarrow> frame list \<Rightarrow> (pstate \<times> frame list) option" where
  "beginValue orEmpty (TString s) st = endValue (JString s) st"
| "beginValue orEmpty (TNumber n) st = endValue (JNumber n) st"
| "beginValue orEmpty TTrue st = endValue (JBool True) st"
| "beginValue orEmpty TFalse st = endValue (JBool False) st"
| "beginValue orEmpty TNull st = endValue JNull st"
| "beginValue orEmpty TLBracket st = pushFrame BeginValueOrEmpty (FArray []) st"
| "beginValue orEmpty TLBrace st = pushFrame BeginStringOrEmpty (FObject []) st"
| "beginValue orEmpty TRBracket st =
     (case st of
        FArray es # st' \<Rightarrow> if orEmpty then endValue (JArray es) st' else None
      | _ \<Rightarrow> None)"
| "beginValue orEmpty t st = None"

fun beginString :: "bool \<Rightarrow> token \<Rightarrow> frame list \<Rightarrow> (pstate \<times> frame list) option" where
  "beginString orEmpty (TString k) st = Some (ObjectKey, FKey k # st)"
| "beginString orEmpty TRBrace st =
     (case st of
        FObject ms # st' \<Rightarrow> if orEmpty then endValue (JObject ms) st' else None
      | _ \<Rightarrow> None)"
| "beginString orEmpty t st = None"

fun afterValue :: "token \<Rightarrow> frame list \<Rightarrow> (pstate \<times> frame list) option" where
  "afterValue TComma (FArray es # st) = Some (BeginValue, FArray es # st)"
| "afterValue TComma (FObject ms # st) = Some (BeginString, FObject ms # st)"
| "afterValue TRBracket (FArray es # st) = endValue (JArray es) st"
| "afterValue TRBrace (FObject ms # st) = endValue (JObject ms) st"
| "afterValue t st = None"

fun step :: "pstate \<Rightarrow> token \<Rightarrow> frame list \<Rightarrow> (pstate \<times> frame list) option" where
  "step BeginValue t st = beginValue False t st"
| "step BeginValueOrEmpty t st = beginValue True t st"
| "step BeginStringOrEmpty t st = beginString True t st"
| "step BeginString t st = beginString False t st"
| "step ObjectKey t st = (if t = TColon then Some (BeginValue, st) else None)"
| "step EndValue t st = afterValue t st"
| "step (EndTop v) t st = None"

fun scan :: "pstate \<Rightarrow> frame list \<Rightarrow> token list \<Rightarrow> json option" where
  "scan state st [] = (case state of EndTop v \<Rightarrow> Some v | _ \<Rightarrow> None)"
| "scan state st (t # ts) =
     (case step state t st of
        None \<Rightarrow> None
      | Some (state', st') \<Rightarrow> scan state' st' ts)"

definition json_parse :: "string \<Rightarrow> json option" where
  "json_parse data =
     (case tokenize data of
        None \<Rightarrow> None
      | Some ts \<Rightarrow> scan BeginValue [] ts)"

section \<open>Decoding into \<open>IncidentAnalysis\<close>\<close>

text \<open>
  A key selects the field whose \<open>json\<close> tag it equals, or else equals under Unicode simple
  case folding: letters fold to upper case, and U+017F (bytes C5 BF) and U+212A (E2 84 AA)
  fold to \<open>S\<close> and \<open>K\<close>. A string is stored in the field, \<open>null\<close> leaves it, any other value
  is an \<open>UnmarshalTypeError\<close>; the first such error is kept, decoding goes on, and the error is
  returned at the end. Unknown keys are skipped; of two members for one field the last
  wins. At the top, \<open>null\<close> leaves the struct as it is and any other value than an object is
  an \<open>UnmarshalTypeError\<close>.
\<close>

definition toUpper :: "char \<Rightarrow> char" where
  "toUpper c =
     (if (97::nat) \<le> of_char c \<and> (of_char c :: nat) \<le> 122
      then char_of ((of_char c :: nat) - 32) else c)"

fun foldName :: "string \<Rightarrow> string" where
  "foldName (c1 # c2 # c3 # cs) =
     (if c1 = CHR 0xE2 \<and> c2 = CHR 0x84 \<and> c3 = CHR 0xAA then CHR ''K'' # foldName cs
      else if c1 = CHR 0xC5 \<and> c2 = CHR 0xBF then CHR ''S'' # foldName (c3 # cs)
      else toUpper c1 # foldName (c2 # c3 # cs))"
| "foldName [c1, c2] =
     (if c1 = CHR 0xC5 \<and> c2 = CHR 0xBF then [CHR ''S''] else [toUpper c1, toUpper c2])"
| "foldName [c1] = [toUpper c1]"
| "foldName [] = []"

datatype field = severity | category

definition fieldByName :: "string \<Rightarrow> field option" where
  "fieldByName key =
     (if key = ''severity'' then Some severity
      else if key = ''category'' then Some category
      else if foldName key = ''SEVERITY'' then Some severity
      else if foldName key = ''CATEGORY'' then Some category
      else None)"

fun valueKind :: "json \<Rightarrow> string" where
  "valueKind JNull = ''null''"
| "valueKind (JBool b) = ''bool''"
| "valueKind (JNumber n) = ''number''"
| "valueKind (JString s) = ''string''"
| "valueKind (JArray es) = ''array''"
| "valueKind (JObject ms) = ''object''"

definition saveError :: "error \<Rightarrow> error option \<Rightarrow> error option" where
  "saveError err saved = (case saved of None \<Rightarrow> Some err | Some first \<Rightarrow> Some first)"

fun setField :: "field \<Rightarrow> string \<Rightarrow> IncidentAnalysis \<Rightarrow> IncidentAnalysis" where
  "setField severity s a = a\<lparr>Severity := s\<rparr>"
| "setField category s a = a\<lparr>Category := s\<rparr>"

fun decodeMember ::
  "IncidentAnalysis \<times> error option \<Rightarrow> string \<times> json \<Rightarrow> IncidentAnalysis \<times> error option" where
  "decodeMember (a, saved) (key, v) =
     (case fieldByName key of
        None \<Rightarrow> (a, saved)
      | Some f \<Rightarrow>
          (case v of
             JString s \<Rightarrow> (setField f s a, saved)
           | JNull \<Rightarrow> (a, saved)
           | _ \<Rightarrow> (a, saveError (UnmarshalTypeError (valueKind v)) saved)))"

definition decodeValue :: "json \<Rightarrow> error + IncidentAnalysis" where
  "decodeValue v =
     (case v of
        JObject ms \<Rightarrow>
          (case foldl decodeMember (\<lparr>Severity = [], Category = []\<rparr>, None) ms of
             (a, None) \<Rightarrow> Inr a
           | (a, Some err) \<Rightarrow> Inl err)
      | JNull \<Rightarrow> Inr \<lparr>Severity = [], Category = []\<rparr>
      | _ \<Rightarrow> Inl (UnmarshalTypeError (valueKind v)))"

definition Unmarshal :: "string \<Rightarrow> error + IncidentAnalysis" where
  "Unmarshal data =
     (case json_parse data of
        None \<Rightarrow> Inl SyntaxError
      | Some v \<Rightarrow> decodeValue v)"

section \<open>\<open>strings.TrimSpace\<close>\<close>

text \<open>Leading and trailing white space in the sense of \<open>unicode.IsSpace\<close> is cut: the ASCII
  bytes 09 to 0D and 20, and the UTF-8 encodings of U+0085, U+00A0, U+1680, U+2000 to U+200A,
  U+2028, U+2029, U+202F, U+205F and U+3000. \<open>trimLeft True\<close> works on the reversed string.\<close>

definition asciiSpace :: "char \<Rightarrow> bool" where
  "asciiSpace c \<longleftrightarrow>
     c = CHR 0x09 \<or> c = CHR 0x0A \<or> c = CHR 0x0B \<or> c = CHR 0x0C \<or> c = CHR 0x0D \<or> c = CHR '' ''"

definition space2 :: "char \<Rightarrow> char \<Rightarrow> bool" where
  "space2 c1 c2 \<longleftrightarrow> c1 = CHR 0xC2 \<and> (c2 = CHR 0x85 \<or> c2 = CHR 0xA0)"

definition space3 :: "char \<Rightarrow> char \<Rightarrow> char \<Rightarrow> bool" where
  "space3 c1 c2 c3 \<longleftrightarrow>
     c1 = CHR 0xE1 \<and> c2 = CHR 0x9A \<and> c3 = CHR 0x80
   \<or> c1 = CHR 0xE2 \<and> c2 = CHR 0x80 \<and>
       ((0x80::nat) \<le> of_char c3 \<and> (of_char c3 :: nat) \<le> 0x8A
        \<or> c3 = CHR 0xA8 \<or> c3 = CHR 0xA9 \<or> c3 = CHR 0xAF)
   \<or> c1 = CHR 0xE2 \<and> c2 = CHR 0x81 \<and> c3 = CHR 0x9F
   \<or> c1 = CHR 0xE3 \<and> c2 = CHR 0x80 \<and> c3 = CHR 0x80"

fun trimLeft :: "bool \<Rightarrow> string \<Rightarrow> string" where
  "trimLeft rv (c1 # c2 # c3 # cs) =
     (if asciiSpace c1 then trimLeft rv (c2 # c3 # cs)
      else if (if rv then space2 c2 c1 else space2 c1 c2) then trimLeft rv (c3 # cs)
      else if (if rv then space3 c3 c2 c1 else space3 c1 c2 c3) then trimLeft rv cs
      else c1 # c2 # c3 # cs)"
| "trimLeft rv [c1, c2] =
     (if asciiSpace c1 then trimLeft rv [c2]
      else if (if rv then space2 c2 c1 else space2 c1 c2) then []
      else [c1, c2])"
| "trimLeft rv [c1] = (if asciiSpace c1 then [] else [c1])"
| "trimLeft rv [] = []"

definition TrimSpace :: "string \<Rightarrow> string" where
  "TrimSpace s = rev (trimLeft True (rev (trimLeft False s)))"

section \<open>The chat completion client (github.com/sashabaranov/go-openai)\<close>

record ChatCompletionMessage =
  Role :: string
  Content :: string

record ChatCompletionRequest =
  Model :: string
  Messages :: "ChatCompletionMessage list"
  Temperature :: real

record ChatCompletionChoice =
  Message :: ChatCompletionMessage

record ChatCompletionResponse =
  Choices :: "ChatCompletionChoice list"

text \<open>The client is what it answers a request with: the service beyond it is not part of the
  repository.\<close>

record OpenAIClient =
  CreateChatCompletion :: "ChatCompletionRequest \<Rightarrow> error + ChatCompletionResponse"

definition GPT3Dot5Turbo :: string where
  "GPT3Dot5Turbo = ''gpt-3.5-turbo''"

definition ChatMessageRoleSystem :: string where
  "ChatMessageRoleSystem = ''system''"

definition ChatMessageRoleUser :: string where
  "ChatMessageRoleUser = ''user''"

section \<open>OpenAIService (internal/service/openai_service.go)\<close>

record OpenAIService =
  client :: OpenAIClient

datatype panic = Panic string

text \<open>The environment maps the names of the variables that are set to their values;
  \<open>os.Getenv\<close> gives the empty string for a variable that is not set.\<close>

definition Getenv :: "(string \<rightharpoonup> string) \<Rightarrow> string \<Rightarrow> string" where
  "Getenv env key = (case env key of None \<Rightarrow> [] | Some v \<Rightarrow> v)"

text \<open>\<open>NewClient\<close> stands for \<open>openai.NewClient\<close>.\<close>

definition NewOpenAIService ::
  "(string \<Rightarrow> OpenAIClient) \<Rightarrow> (string \<rightharpoonup> string) \<Rightarrow> panic + OpenAIService" where
  "NewOpenAIService NewClient env =
     (let apiKey = Getenv env ''OPENAI_API_KEY'' in
      if apiKey = [] then Inl (Panic ''OPENAI_API_KEY environment variable is required'')
      else Inr \<lparr>client = NewClient apiKey\<rparr>)"

text \<open>The prompt of \<open>fmt.Sprintf\<close>, with the three arguments at the \<open>%s\<close>.\<close>

definition prompt :: "string \<Rightarrow> string \<Rightarrow> string \<Rightarrow> string" where
  \<open>prompt title description affectedService =
     ''\<newline>Analyze the following IT incident and provide:\<newline>''
     @ ''1. Severity level (Low, Medium, High, Critical)\<newline>''
     @ ''2. Category (Network, Software, Hardware, Security, Database, Application, Infrastructure)\<newline>''
     @ ''\<newline>Incident Details:\<newline>''
     @ ''- Title: '' @ title @ ''\<newline>''
     @ ''- Description: '' @ description @ ''\<newline>''
     @ ''- Affected Service: '' @ affectedService @ ''\<newline>''
     @ ''\<newline>Please respond with only a JSON object in this exact format:\<newline>''
     @ ''{\<newline>''
     @ ''  "severity": "Low|Medium|High|Critical",\<newline>''
     @ ''  "category": "Network|Software|Hardware|Security|Database|Application|Infrastructure"\<newline>''
     @ ''}\<newline>''\<close>

definition systemContent :: string where
  "systemContent = ''You are an IT incident triage assistant. Analyze incidents and provide severity and category classifications. Respond only with valid JSON.''"

fun contains_str :: "string list \<Rightarrow> string \<Rightarrow> bool" where
  "contains_str [] item = False"
| "contains_str (s # slice) item = (if s = item then True else contains_str slice item)"

definition validSeverities :: "string list" where
  "validSeverities = [''Low'', ''Medium'', ''High'', ''Critical'']"

definition validCategories :: "string list" where
  "validCategories =
     [''Network'', ''Software'', ''Hardware'', ''Security'', ''Database'', ''Application'',
      ''Infrastructure'']"

text \<open>The request literal of \<open>AnalyzeIncident\<close>.\<close>

definition analysisRequest :: "string \<Rightarrow> string \<Rightarrow> string \<Rightarrow> ChatCompletionRequest" where
  "analysisRequest title description affectedService =
     \<lparr>Model = GPT3Dot5Turbo,
      Messages =
        [\<lparr>Role = ChatMessageRoleSystem, Content = systemContent\<rparr>,
         \<lparr>Role = ChatMessageRoleUser, Content = prompt title description affectedService\<rparr>],
      Temperature = 0.1\<rparr>"

definition OpenAIService_AnalyzeIncident ::
  "OpenAIService \<Rightarrow> string \<Rightarrow> string \<Rightarrow> string \<Rightarrow> error + IncidentAnalysis" where
  "OpenAIService_AnalyzeIncident s title description affectedService =
     (case CreateChatCompletion (client s)
             (analysisRequest title description affectedService) of
        Inl err \<Rightarrow> Inl (Wrap ''failed to get AI analysis'' err)
      | Inr resp \<Rightarrow>
          if length (Choices resp) = 0 then Inl (ErrorString ''no response from AI service'')
          else
            (let content = TrimSpace (Content (Message (Choices resp ! 0))) in
             case Unmarshal content of
               Inl err \<Rightarrow> Inl (Wrap ''failed to parse AI response'' err)
             | Inr analysis \<Rightarrow>
                 (let analysis1 =
                        (if \<not> contains_str validSeverities (Severity analysis)
                         then analysis\<lparr>Severity := ''Medium''\<rparr> else analysis);
                      analysis2 =
                        (if \<not> contains_str validCategories (Category analysis1)
                         then analysis1\<lparr>Category := ''Software''\<rparr> else analysis1)
                  in Inr analysis2)))"

text \<open>\<open>*OpenAIService\<close> as the \<open>AIService\<close> handed to \<open>NewIncidentUseCase\<close> in cmd/main.go.\<close>

definition asAIService :: "OpenAIService \<Rightarrow> AIService" where
  "asAIService s = \<lparr>AnalyzeIncident = OpenAIService_AnalyzeIncident s\<rparr>"

text \<open>\<open>MockOpenAIClient\<close> of the service tests: one choice with the given content, or an error.\<close>

definition MockOpenAIClient :: "error + string \<Rightarrow> OpenAIClient" where
  "MockOpenAIClient answer =
     \<lparr>CreateChatCompletion = (\<lambda>req.
        case answer of
          Inl err \<Rightarrow> Inl err
        | Inr aiResponse \<Rightarrow>
            Inr \<lparr>Choices = [\<lparr>Message = \<lparr>Role = [], Content = aiResponse\<rparr>\<rparr>]\<rparr>)\<rparr>"

section \<open>Test doubles and sample states\<close>

text \<open>\<open>MockAIService\<close> of the use case tests: it answers every call with the given result.\<close>

definition MockAIService :: "error + IncidentAnalysis \<Rightarrow> AIService" where
  "MockAIService answer = \<lparr>AnalyzeIncident = (\<lambda>title description affectedService. answer)\<rparr>"

text \<open>The table after the migration: no row, the first key is 1.\<close>

definition empty_db :: sql_DB where
  "empty_db =
     \<lparr>table_incidents = [], auto_increment = 1, failure = (\<lambda>stmt. None),
      timestamp_column = whole_seconds, scan_failure = (\<lambda>row. None),
      iteration_failure = None\<rparr>"

text \<open>Three rows whose creation times, given in seconds, are not in insertion order.\<close>

definition sample_row :: "int \<Rightarrow> Time \<Rightarrow> Incident" where
  "sample_row id' created =
     \<lparr>ID = id', Title = ''Test Incident'', Description = ''Test Description'',
      AffectedService = ''Test Service'', AISeverity = ''Medium'', AICategory = ''Software'',
      CreatedAt = created * 1000000000, UpdatedAt = created * 1000000000\<rparr>"

definition sample_db :: sql_DB where
  "sample_db =
     \<lparr>table_incidents = [sample_row 1 20, sample_row 2 90, sample_row 3 50],
      auto_increment = 4, failure = (\<lambda>stmt. None),
      timestamp_column = whole_seconds, scan_failure = (\<lambda>row. None),
      iteration_failure = None\<rparr>"

definition sample_request :: CreateIncidentRequest where
  "sample_request =
     \<lparr>reqTitle = ''Updated Incident'', reqDescription = ''Updated Description'',
      reqAffectedService = ''Updated Service''\<rparr>"

text \<open>Completion texts: the second case of the service test, a member of a wrong type, and
  a text cut short.\<close>

definition completion_invalid_severity :: string where
  \<open>completion_invalid_severity = ''{"severity": "Invalid", "category": "Software"}''\<close>

definition completion_wrong_type :: string where
  \<open>completion_wrong_type = ''{"severity": 5, "category": "Software"}''\<close>

definition completion_malformed :: string where
  \<open>completion_malformed = ''{"severity": "High"''\<close>

text \<open>The first and third cases of the service test, and a text whose keys are in other
  cases, with white space around and a member that selects no field.\<close>

definition completion_successful :: string where
  \<open>completion_successful = ''{"severity": "High", "category": "Database"}''\<close>

definition completion_invalid_category :: string where
  \<open>completion_invalid_category = ''{"severity": "High", "category": "Invalid"}''\<close>

definition completion_folded_keys :: string where
  \<open>completion_folded_keys = ''  {"SEVERITY": "Low", "Category": "Network", "note": [1, 2.5e3, null]}  ''\<close>

section \<open>Kinds of completion text\<close>

text \<open>A member has a wrong type when its key selects a field and its value is neither a
  string nor \<open>null\<close>; a document has a wrong type when it is an object with such a member, or
  is neither an object nor \<open>null\<close>. These are the documents \<open>decodeValue\<close> refuses.\<close>

fun isStringOrNull :: "json \<Rightarrow> bool" where
  "isStringOrNull (JString s) = True"
| "isStringOrNull JNull = True"
| "isStringOrNull v = False"

definition mismatch :: "string \<times> json \<Rightarrow> bool" where
  "mismatch m \<longleftrightarrow> fieldByName (fst m) \<noteq> None \<and> \<not> isStringOrNull (snd m)"

fun wrongType :: "json \<Rightarrow> bool" where
  "wrongType (JObject ms) = list_ex mismatch ms"
| "wrongType JNull = False"
| "wrongType v = True"

text \<open>An object omits a field when none of its keys selects it.\<close>

definition omits :: "field \<Rightarrow> (string \<times> json) list \<Rightarrow> bool" where
  "omits f ms = list_all (\<lambda>m. fieldByName (fst m) \<noteq> Some f) ms"

text \<open>The enumeration invariant of a stored incident.\<close>

definition validEnums :: "Incident \<Rightarrow> bool" where
  "validEnums incident \<longleftrightarrow>
     AISeverity incident \<in> set validSeverities \<and> AICategory incident \<in> set validCategories"

section \<open>The primary key\<close>

text \<open>\<open>id INT AUTO_INCREMENT PRIMARY KEY\<close>: the ids of the rows are distinct and below the
  counter.\<close>

definition db_wf :: "sql_DB \<Rightarrow> bool" where
  "db_wf db \<longleftrightarrow>
     distinct (map ID (table_incidents db)) \<and>
     list_all (\<lambda>row. ID row < auto_increment db) (table_incidents db)"

text \<open>Creation times from the most recent to the oldest.\<close>

definition created_desc :: "Incident list \<Rightarrow> bool" where
  "created_desc xs = sorted_wrt (\<lambda>a b. CreatedAt b \<le> CreatedAt a) xs"

section \<open>Properties of the store\<close>

lemma Itoa_999: "Itoa 999 = ''999''"
  by (simp add: Itoa_def natToStr.simps)

lemma db_wf_empty: "db_wf empty_db"
  by (simp add: db_wf_def empty_db_def)

lemma db_wf_INSERT:
  assumes "db_wf db"
  shows "db_wf (snd (Exec_INSERT incident db))"
proof (cases "failure db (INSERT incident)")
  case None
  have "\<forall>row \<in> set (table_incidents db). ID row < auto_increment db"
    using assms by (simp add: db_wf_def list_all_iff)
  then show ?thesis
    using assms None by (auto simp: db_wf_def Exec_INSERT_def list_all_iff)
next
  case (Some err)
  then show ?thesis using assms by (simp add: Exec_INSERT_def)
qed

lemma map_ID_SET_columns:
  "map ID (map (\<lambda>row. if ID row = i then SET_columns db incident row else row) rows)
     = map ID rows"
  by (induction rows) (simp_all add: SET_columns_def)

lemma map_CreatedAt_SET_columns:
  "map CreatedAt (map (\<lambda>row. if ID row = i then SET_columns db incident row else row) rows)
     = map CreatedAt rows"
  by (induction rows) (simp_all add: SET_columns_def)

lemma db_wf_UPDATE:
  assumes "db_wf db"
  shows "db_wf (snd (Exec_UPDATE incident db))"
proof (cases "failure db (UPDATE incident)")
  case None
  let ?rows = "map (\<lambda>row. if ID row = ID incident then SET_columns db incident row else row)
                 (table_incidents db)"
  have below: "list_all (\<lambda>row. ID row < auto_increment db) ?rows"
    using assms by (auto simp: db_wf_def list_all_iff SET_columns_def)
  have "distinct (map ID (table_incidents db))"
    using assms by (simp add: db_wf_def)
  then have "distinct (map ID ?rows)"
    by (simp only: map_ID_SET_columns)
  with below have "db_wf (db\<lparr>table_incidents := ?rows\<rparr>)"
    by (simp add: db_wf_def del: map_map)
  then show ?thesis
    using None by (simp add: Exec_UPDATE_def)
next
  case (Some err)
  then show ?thesis using assms by (simp add: Exec_UPDATE_def)
qed

lemma db_wf_DELETE:
  assumes "db_wf db"
  shows "db_wf (snd (Exec_DELETE i db))"
proof (cases "failure db (DELETE i)")
  case None
  then show ?thesis
    using assms by (auto simp: db_wf_def Exec_DELETE_def list_all_iff distinct_map_filter)
next
  case (Some err)
  then show ?thesis using assms by (simp add: Exec_DELETE_def)
qed

text \<open>The loop keeps the rows it is delivered, in their order, behind what it has
  collected; it returns a list exactly when every row scans.\<close>

lemma scan_rows_all:
  "list_all (\<lambda>row. scan_failure db row = None) rows \<Longrightarrow> scan_rows db rows acc = Inr (acc @ rows)"
  by (induction rows arbitrary: acc) (simp_all add: Scan_def)

lemma scan_rows_Inr:
  "scan_rows db rows acc = Inr incidents \<Longrightarrow>
     incidents = acc @ rows \<and> list_all (\<lambda>row. scan_failure db row = None) rows"
proof (induction rows arbitrary: acc)
  case Nil
  then show ?case by simp
next
  case (Cons row rows)
  show ?case
  proof (cases "scan_failure db row")
    case None
    then have "scan_rows db rows (acc @ [row]) = Inr incidents"
      using Cons.prems by (simp add: Scan_def)
    then have "incidents = (acc @ [row]) @ rows
        \<and> list_all (\<lambda>row. scan_failure db row = None) rows"
      by (rule Cons.IH)
    then show ?thesis using None by simp
  next
    case (Some err)
    then show ?thesis using Cons.prems by (simp add: Scan_def)
  qed
qed

lemma find_None_absent:
  "\<forall>row \<in> set rows. ID row \<noteq> i \<Longrightarrow> find (\<lambda>row. ID row = i) rows = None"
  by (simp add: find_None_iff)

lemma filter_absent:
  "\<forall>row \<in> set rows. ID row \<noteq> i \<Longrightarrow> filter (\<lambda>row. ID row = i) rows = []"
  by (simp add: filter_empty_conv)

lemma filter_absent_keep:
  "\<forall>row \<in> set rows. ID row \<noteq> i \<Longrightarrow> filter (\<lambda>row. ID row \<noteq> i) rows = rows"
  by (simp add: filter_id_conv)

lemma find_append_new:
  "\<forall>row \<in> set rows. ID row \<noteq> ID r \<Longrightarrow> find (\<lambda>row. ID row = ID r) (rows @ [r]) = Some r"
  by (induction rows) auto

lemma find_Some_ID: "find (\<lambda>row. ID row = i) rows = Some r \<Longrightarrow> ID r = i \<and> r \<in> set rows"
  by (induction rows) (auto split: if_splits)

lemma GetByID_absent:
  assumes "failure db (SELECT_WHERE_id i) = None" and "\<forall>row \<in> set (table_incidents db). ID row \<noteq> i"
  shows "MySQLIncidentRepository_GetByID i db = (Inl (incident_not_found i), db)"
  using assms
  by (simp add: MySQLIncidentRepository_GetByID_def QueryRow_SELECT_by_id_def find_None_absent)

lemma GetByID_reads_only: "snd (MySQLIncidentRepository_GetByID i db) = db"
  by (simp add: MySQLIncidentRepository_GetByID_def split: sum.splits)

lemma GetAll_reads_only: "snd (MySQLIncidentRepository_GetAll db) = db"
  by (simp add: MySQLIncidentRepository_GetAll_def split: sum.splits option.splits)

lemma Delete_absent:
  assumes "failure db (DELETE i) = None" and "\<forall>row \<in> set (table_incidents db). ID row \<noteq> i"
  shows "MySQLIncidentRepository_Delete i db = (Some (incident_not_found i), db)"
  using assms
  by (simp add: MySQLIncidentRepository_Delete_def Exec_DELETE_def RowsAffected_def
      filter_absent filter_absent_keep)

text \<open>What the server's \<open>ORDER BY created_at DESC\<close> gives: the same rows, the most recent
  first.\<close>

lemma ORDER_BY_created_desc: "created_desc (ORDER_BY_created_at_DESC rows)"
proof -
  have "sorted (map (\<lambda>row. - CreatedAt row) (sort_key (\<lambda>row. - CreatedAt row) rows))"
    by (rule sorted_sort_key)
  then show ?thesis by (simp add: sorted_map created_desc_def ORDER_BY_created_at_DESC_def)
qed

lemma ORDER_BY_same_rows: "mset (ORDER_BY_created_at_DESC rows) = mset rows"
  by (simp add: ORDER_BY_created_at_DESC_def)

text \<open>What \<open>GetAll\<close> returns when it returns a list: the whole reply of the server, as
  delivered.\<close>

lemma GetAll_Inr:
  assumes "MySQLIncidentRepository_GetAll db = (Inr incidents, db')"
  shows "incidents = ORDER_BY_created_at_DESC (table_incidents db) \<and> db' = db
         \<and> failure db SELECT_ORDER_BY_created_at = None \<and> iteration_failure db = None
         \<and> list_all (\<lambda>row. scan_failure db row = None) (table_incidents db)"
proof -
  obtain rows where q: "Query_SELECT_all db = Inr rows"
    using assms by (cases "Query_SELECT_all db") (auto simp: MySQLIncidentRepository_GetAll_def)
  have s: "scan_rows db (rows_Next rows) [] = Inr incidents" and e: "rows_Err rows = None"
    and d: "db' = db"
    using assms q
    by (auto simp: MySQLIncidentRepository_GetAll_def split: sum.splits option.splits)
  have f: "failure db SELECT_ORDER_BY_created_at = None"
    using q by (cases "failure db SELECT_ORDER_BY_created_at") (auto simp: Query_SELECT_all_def)
  have i: "iteration_failure db = None"
    using q e f by (cases "iteration_failure db") (auto simp: Query_SELECT_all_def)
  have n: "rows_Next rows = ORDER_BY_created_at_DESC (table_incidents db)"
    using q f i by (auto simp: Query_SELECT_all_def)
  have all: "list_all (\<lambda>row. scan_failure db row = None)
               (ORDER_BY_created_at_DESC (table_incidents db))"
    using scan_rows_Inr [OF s] n by simp
  have "set (ORDER_BY_created_at_DESC (table_incidents db)) = set (table_incidents db)"
    by (simp add: ORDER_BY_created_at_DESC_def)
  then have "list_all (\<lambda>row. scan_failure db row = None) (table_incidents db)"
    using all by (simp add: list_all_iff)
  then show ?thesis
    using scan_rows_Inr [OF s] n d f i by simp
qed

lemma GetAll_returns:
  assumes "failure db SELECT_ORDER_BY_created_at = None" and "iteration_failure db = None"
    and "list_all (\<lambda>row. scan_failure db row = None) (table_incidents db)"
  shows "MySQLIncidentRepository_GetAll db
           = (Inr (ORDER_BY_created_at_DESC (table_incidents db)), db)"
proof -
  have "set (ORDER_BY_created_at_DESC (table_incidents db)) = set (table_incidents db)"
    by (simp add: ORDER_BY_created_at_DESC_def)
  then have "list_all (\<lambda>row. scan_failure db row = None)
               (ORDER_BY_created_at_DESC (table_incidents db))"
    using assms(3) by (simp add: list_all_iff)
  then show ?thesis
    using assms(1,2)
    by (simp add: MySQLIncidentRepository_GetAll_def Query_SELECT_all_def scan_rows_all)
qed

section \<open>Claims on the use case and the store\<close>

text \<open>
  C3. When the classifier call returns an error, \<open>CreateIncident\<close> and \<open>UpdateIncident\<close> return
  an error and write nothing. \<open>CreateIncident\<close> returns the classifier's error and leaves the
  state of any repository as it was, so it has called none of its operations.
  \<open>UpdateIncident\<close> returns an error and leaves the state as \<open>GetByID\<close> alone leaves it, so it
  has not called \<open>Update\<close>; on the MySQL repository the database is what it was before the call.
\<close>

theorem classifier_error_no_store_write:
  assumes "AnalyzeIncident ai (reqTitle req) (reqDescription req) (reqAffectedService req) = Inl err"
  shows "CreateIncident (NewIncidentUseCase repo ai) req now1 now2 s = (Inl err, s)
    \<and> (\<exists>e. fst (UpdateIncident (NewIncidentUseCase repo ai) i req now s) = Inl e)
    \<and> snd (UpdateIncident (NewIncidentUseCase repo ai) i req now s) = snd (GetByID repo i s)
    \<and> (\<exists>e. UpdateIncident (NewIncidentUseCase NewMySQLIncidentRepository ai) i req now db
             = (Inl e, db))"
  using assms
  by (auto simp: CreateIncident_def UpdateIncident_def NewIncidentUseCase_def
      NewMySQLIncidentRepository_def MySQLIncidentRepository_GetByID_def
      split: prod.splits sum.splits)

theorem classifier_error_no_store_write_witness:
  "AnalyzeIncident (MockAIService (Inl (ErrorString ''AI service unavailable'')))
      (reqTitle sample_request) (reqDescription sample_request) (reqAffectedService sample_request)
     = Inl (ErrorString ''AI service unavailable'')
   \<and> CreateIncident (NewIncidentUseCase NewMySQLIncidentRepository
         (MockAIService (Inl (ErrorString ''AI service unavailable'')))) sample_request 100 100 sample_db
     = (Inl (ErrorString ''AI service unavailable''), sample_db)
   \<and> UpdateIncident (NewIncidentUseCase NewMySQLIncidentRepository
         (MockAIService (Inl (ErrorString ''AI service unavailable'')))) 2 sample_request 100 sample_db
     = (Inl (ErrorString ''AI service unavailable''), sample_db)"
proof -
  let ?ai = "MockAIService (Inl (ErrorString ''AI service unavailable''))"
  have h: "AnalyzeIncident ?ai (reqTitle sample_request) (reqDescription sample_request)
      (reqAffectedService sample_request) = Inl (ErrorString ''AI service unavailable'')"
    by (simp add: MockAIService_def)
  have u: "fst (UpdateIncident (NewIncidentUseCase NewMySQLIncidentRepository ?ai) 2 sample_request 100 sample_db)
     = Inl (ErrorString ''AI service unavailable'')"
    by (simp add: UpdateIncident_def NewIncidentUseCase_def NewMySQLIncidentRepository_def
        MySQLIncidentRepository_GetByID_def QueryRow_SELECT_by_id_def Scan_def sample_db_def
        sample_row_def MockAIService_def)
  show ?thesis
    using h u classifier_error_no_store_write [OF h, of NewMySQLIncidentRepository 100 100 sample_db 2 100 sample_db]
    by (auto simp: prod_eq_iff)
qed

text \<open>
  C5. When the database executes the statement and no row has the id, \<open>GetIncident\<close>,
  \<open>UpdateIncident\<close> and \<open>DeleteIncident\<close> return the error \<open>incident not found with id <id>\<close>
  and leave the database as it was. The witness is the id 999 of the repository tests: the
  message is \<open>incident not found with id 999\<close>.
\<close>

theorem absent_id_not_found:
  assumes "failure db (SELECT_WHERE_id i) = None" and "failure db (DELETE i) = None"
    and "i \<notin> set (map ID (table_incidents db))"
  shows "GetIncident (NewIncidentUseCase NewMySQLIncidentRepository ai) i db
           = (Inl (ErrorString (''incident not found with id '' @ Itoa i)), db)
   \<and> UpdateIncident (NewIncidentUseCase NewMySQLIncidentRepository ai) i req now db
           = (Inl (ErrorString (''incident not found with id '' @ Itoa i)), db)
   \<and> DeleteIncident (NewIncidentUseCase NewMySQLIncidentRepository ai) i db
           = (Some (ErrorString (''incident not found with id '' @ Itoa i)), db)"
proof -
  have absent: "\<forall>row \<in> set (table_incidents db). ID row \<noteq> i"
    using assms(3) by auto
  show ?thesis
    using GetByID_absent [OF assms(1) absent] Delete_absent [OF assms(2) absent]
    by (simp add: GetIncident_def UpdateIncident_def DeleteIncident_def NewIncidentUseCase_def
        NewMySQLIncidentRepository_def incident_not_found_def)
qed

theorem absent_id_not_found_witness:
  "failure sample_db (SELECT_WHERE_id 999) = None \<and> failure sample_db (DELETE 999) = None
   \<and> 999 \<notin> set (map ID (table_incidents sample_db))
   \<and> GetIncident (NewIncidentUseCase NewMySQLIncidentRepository
        (MockAIService (Inr \<lparr>Severity = ''High'', Category = ''Network''\<rparr>))) 999 sample_db
        = (Inl (ErrorString ''incident not found with id 999''), sample_db)
   \<and> UpdateIncident (NewIncidentUseCase NewMySQLIncidentRepository
        (MockAIService (Inr \<lparr>Severity = ''High'', Category = ''Network''\<rparr>)))
        999 sample_request 100 sample_db
        = (Inl (ErrorString ''incident not found with id 999''), sample_db)
   \<and> DeleteIncident (NewIncidentUseCase NewMySQLIncidentRepository
        (MockAIService (Inr \<lparr>Severity = ''High'', Category = ''Network''\<rparr>))) 999 sample_db
        = (Some (ErrorString ''incident not found with id 999''), sample_db)"
proof -
  have h1: "failure sample_db (SELECT_WHERE_id 999) = None"
    by (simp add: sample_db_def)
  have h2: "failure sample_db (DELETE 999) = None"
    by (simp add: sample_db_def)
  have h3: "999 \<notin> set (map ID (table_incidents sample_db))"
    by (simp add: sample_db_def sample_row_def)
  show ?thesis
    using h1 h2 h3 absent_id_not_found [OF h1 h2 h3] by (simp add: Itoa_999)
qed

text \<open>
  C6. Whenever \<open>GetAllIncidents\<close> returns a list, the list is the reply of the server to
  \<open>SELECT ... ORDER BY created_at DESC\<close> as the loop received it: all the rows of the table,
  whatever the order they were inserted in, from the most recent creation time to the oldest;
  the database is left as it was. It returns a list when the query is executed, the result
  set does not break off and every row scans; otherwise it returns an error. The order is
  the server's; the loop of \<open>GetAll\<close> keeps it and drops no row.
\<close>

theorem get_all_created_desc:
  "(\<forall>result db'.
       GetAllIncidents (NewIncidentUseCase NewMySQLIncidentRepository ai) db = (Inr result, db')
       \<longrightarrow> result = ORDER_BY_created_at_DESC (table_incidents db)
           \<and> created_desc result
           \<and> mset result = mset (table_incidents db)
           \<and> db' = db)
   \<and> (failure db SELECT_ORDER_BY_created_at = None \<and> iteration_failure db = None
        \<and> list_all (\<lambda>row. scan_failure db row = None) (table_incidents db)
       \<longrightarrow> (\<exists>result.
             GetAllIncidents (NewIncidentUseCase NewMySQLIncidentRepository ai) db
               = (Inr result, db)))
   \<and> ((\<exists>result db'.
         GetAllIncidents (NewIncidentUseCase NewMySQLIncidentRepository ai) db = (Inr result, db'))
       \<longrightarrow> failure db SELECT_ORDER_BY_created_at = None \<and> iteration_failure db = None
           \<and> list_all (\<lambda>row. scan_failure db row = None) (table_incidents db))"
proof -
  have g: "GetAllIncidents (NewIncidentUseCase NewMySQLIncidentRepository ai) db
             = MySQLIncidentRepository_GetAll db"
    by (simp add: GetAllIncidents_def NewIncidentUseCase_def NewMySQLIncidentRepository_def)
  have 1: "result = ORDER_BY_created_at_DESC (table_incidents db) \<and> created_desc result
           \<and> mset result = mset (table_incidents db) \<and> db' = db"
    if "MySQLIncidentRepository_GetAll db = (Inr result, db')" for result db'
  proof -
    have r: "result = ORDER_BY_created_at_DESC (table_incidents db)" and d: "db' = db"
      using GetAll_Inr [OF that] by simp_all
    show ?thesis
      unfolding r d
      using ORDER_BY_created_desc [of "table_incidents db"]
        ORDER_BY_same_rows [of "table_incidents db"]
      by simp
  qed
  have 2: "\<exists>result. MySQLIncidentRepository_GetAll db = (Inr result, db)"
    if "failure db SELECT_ORDER_BY_created_at = None \<and> iteration_failure db = None
        \<and> list_all (\<lambda>row. scan_failure db row = None) (table_incidents db)"
    using GetAll_returns [of db] that by simp
  have 3: "failure db SELECT_ORDER_BY_created_at = None \<and> iteration_failure db = None
           \<and> list_all (\<lambda>row. scan_failure db row = None) (table_incidents db)"
    if ex: "\<exists>result db'. MySQLIncidentRepository_GetAll db = (Inr result, db')"
  proof -
    from ex obtain result db' where r: "MySQLIncidentRepository_GetAll db = (Inr result, db')"
      by blast
    show ?thesis using GetAll_Inr [OF r] by simp
  qed
  show ?thesis
    unfolding g using 1 2 3 by blast
qed

theorem get_all_created_desc_witness:
  "failure sample_db SELECT_ORDER_BY_created_at = None \<and> iteration_failure sample_db = None
   \<and> list_all (\<lambda>row. scan_failure sample_db row = None) (table_incidents sample_db)
   \<and> GetAllIncidents (NewIncidentUseCase NewMySQLIncidentRepository
          (MockAIService (Inl (ErrorString ''unused'')))) sample_db
       = (Inr [sample_row 2 90, sample_row 3 50, sample_row 1 20], sample_db)
   \<and> created_desc [sample_row 2 90, sample_row 3 50, sample_row 1 20]
   \<and> mset [sample_row 2 90, sample_row 3 50, sample_row 1 20] = mset (table_incidents sample_db)"
proof -
  let ?ai = "MockAIService (Inl (ErrorString ''unused''))"
  have h1: "failure sample_db SELECT_ORDER_BY_created_at = None"
    by (simp add: sample_db_def)
  have h2: "iteration_failure sample_db = None"
    by (simp add: sample_db_def)
  have h3: "list_all (\<lambda>row. scan_failure sample_db row = None) (table_incidents sample_db)"
    by (simp add: sample_db_def)
  have o: "ORDER_BY_created_at_DESC (table_incidents sample_db)
             = [sample_row 2 90, sample_row 3 50, sample_row 1 20]"
    by (simp add: ORDER_BY_created_at_DESC_def sample_db_def sample_row_def)
  obtain result where r:
    "GetAllIncidents (NewIncidentUseCase NewMySQLIncidentRepository ?ai) sample_db
       = (Inr result, sample_db)"
    using get_all_created_desc [of ?ai sample_db] h1 h2 h3 by blast
  have "result = ORDER_BY_created_at_DESC (table_incidents sample_db) \<and> created_desc result
        \<and> mset result = mset (table_incidents sample_db)"
    using get_all_created_desc [of ?ai sample_db] r by blast
  then have "result = [sample_row 2 90, sample_row 3 50, sample_row 1 20]
        \<and> created_desc [sample_row 2 90, sample_row 3 50, sample_row 1 20]
        \<and> mset [sample_row 2 90, sample_row 3 50, sample_row 1 20]
            = mset (table_incidents sample_db)"
    unfolding o by blast
  then show ?thesis
    using h1 h2 h3 r by blast
qed

text \<open>The error returns of \<open>GetAll\<close> after the query: a row that does not scan, and a result
  set that breaks off.\<close>

lemma get_all_scan_error:
  "GetAllIncidents (NewIncidentUseCase NewMySQLIncidentRepository ai)
     (sample_db\<lparr>scan_failure := (\<lambda>row. if ID row = 3 then Some (ErrorString ''NULL'') else None)\<rparr>)
   = (Inl (Wrap ''failed to scan incident'' (ErrorString ''NULL'')),
      sample_db\<lparr>scan_failure := (\<lambda>row. if ID row = 3 then Some (ErrorString ''NULL'') else None)\<rparr>)"
  by (simp add: GetAllIncidents_def NewIncidentUseCase_def NewMySQLIncidentRepository_def
      MySQLIncidentRepository_GetAll_def Query_SELECT_all_def ORDER_BY_created_at_DESC_def
      Scan_def sample_db_def sample_row_def)

lemma get_all_iteration_error:
  "GetAllIncidents (NewIncidentUseCase NewMySQLIncidentRepository ai)
     (sample_db\<lparr>iteration_failure := Some (1, ErrorString ''connection lost'')\<rparr>)
   = (Inl (Wrap ''error iterating incidents'' (ErrorString ''connection lost'')),
      sample_db\<lparr>iteration_failure := Some (1, ErrorString ''connection lost'')\<rparr>)"
  by (simp add: GetAllIncidents_def NewIncidentUseCase_def NewMySQLIncidentRepository_def
      MySQLIncidentRepository_GetAll_def Query_SELECT_all_def ORDER_BY_created_at_DESC_def
      Scan_def sample_db_def sample_row_def)

text \<open>
  C7. Round trip: on a database that executes the two statements, whose keys are distinct
  and below the counter, and on which the new row scans, creating an incident with title
  \<open>t\<close>, description \<open>d\<close> and affected service \<open>sv\<close> while the classifier succeeds returns the
  incident with these fields, the classifier's severity and category, the two clock readings
  as timestamps and the next key as id. The stored incident is the row added to the table: it
  has the same id, title, description, affected service, severity and category, and both
  timestamps set, to what the \<open>TIMESTAMP\<close> columns keep of the two readings. A subsequent
  \<open>GetIncident\<close> with the assigned id returns a record identical to the stored one. The
  witness is title T, description D, service S with the classification High, Database, on a
  database that keeps whole seconds.
\<close>

theorem create_round_trip:
  assumes "failure db (INSERT \<lparr>ID = 0, Title = t, Description = d, AffectedService = sv,
                 AISeverity = Severity analysis, AICategory = Category analysis,
                 CreatedAt = now1, UpdatedAt = now2\<rparr>) = None"
    and "failure db (SELECT_WHERE_id (auto_increment db)) = None"
    and "scan_failure db \<lparr>ID = auto_increment db, Title = t, Description = d,
                 AffectedService = sv, AISeverity = Severity analysis,
                 AICategory = Category analysis, CreatedAt = timestamp_column db now1,
                 UpdatedAt = timestamp_column db now2\<rparr> = None"
    and "db_wf db"
    and "AnalyzeIncident ai t d sv = Inr analysis"
  shows "\<exists>db'. CreateIncident (NewIncidentUseCase NewMySQLIncidentRepository ai)
            \<lparr>reqTitle = t, reqDescription = d, reqAffectedService = sv\<rparr> now1 now2 db
          = (Inr \<lparr>ID = auto_increment db, Title = t, Description = d, AffectedService = sv,
                 AISeverity = Severity analysis, AICategory = Category analysis,
                 CreatedAt = now1, UpdatedAt = now2\<rparr>, db')
        \<and> table_incidents db' = table_incidents db @
             [\<lparr>ID = auto_increment db, Title = t, Description = d, AffectedService = sv,
                 AISeverity = Severity analysis, AICategory = Category analysis,
                 CreatedAt = timestamp_column db now1,
                 UpdatedAt = timestamp_column db now2\<rparr>]
        \<and> GetIncident (NewIncidentUseCase NewMySQLIncidentRepository ai) (auto_increment db) db'
          = (Inr \<lparr>ID = auto_increment db, Title = t, Description = d, AffectedService = sv,
                 AISeverity = Severity analysis, AICategory = Category analysis,
                 CreatedAt = timestamp_column db now1,
                 UpdatedAt = timestamp_column db now2\<rparr>, db')"
proof -
  let ?row = "\<lparr>ID = auto_increment db, Title = t, Description = d, AffectedService = sv,
                 AISeverity = Severity analysis, AICategory = Category analysis,
                 CreatedAt = timestamp_column db now1,
                 UpdatedAt = timestamp_column db now2\<rparr>"
  have fresh: "\<forall>row \<in> set (table_incidents db). ID row \<noteq> ID ?row"
    using assms(4) by (auto simp: db_wf_def list_all_iff)
  have f: "find (\<lambda>row. ID row = auto_increment db) (table_incidents db @ [?row]) = Some ?row"
    using find_append_new [OF fresh] by simp
  show ?thesis
    using assms(1,2,3,5) f
    by (simp add: CreateIncident_def GetIncident_def NewIncidentUseCase_def
        NewMySQLIncidentRepository_def MySQLIncidentRepository_Create_def
        MySQLIncidentRepository_GetByID_def Exec_INSERT_def LastInsertId_def
        QueryRow_SELECT_by_id_def Scan_def)
qed

theorem create_round_trip_witness:
  "db_wf empty_db
   \<and> AnalyzeIncident (MockAIService (Inr \<lparr>Severity = ''High'', Category = ''Database''\<rparr>))
        ''T'' ''D'' ''S'' = Inr \<lparr>Severity = ''High'', Category = ''Database''\<rparr>
   \<and> (\<exists>db'. CreateIncident (NewIncidentUseCase NewMySQLIncidentRepository
            (MockAIService (Inr \<lparr>Severity = ''High'', Category = ''Database''\<rparr>)))
            \<lparr>reqTitle = ''T'', reqDescription = ''D'', reqAffectedService = ''S''\<rparr>
            41250000000 41750000000 empty_db
          = (Inr \<lparr>ID = 1, Title = ''T'', Description = ''D'', AffectedService = ''S'',
                 AISeverity = ''High'', AICategory = ''Database'',
                 CreatedAt = 41250000000, UpdatedAt = 41750000000\<rparr>, db')
        \<and> table_incidents db'
          = [\<lparr>ID = 1, Title = ''T'', Description = ''D'', AffectedService = ''S'',
                 AISeverity = ''High'', AICategory = ''Database'',
                 CreatedAt = 41000000000, UpdatedAt = 42000000000\<rparr>]
        \<and> GetIncident (NewIncidentUseCase NewMySQLIncidentRepository
            (MockAIService (Inr \<lparr>Severity = ''High'', Category = ''Database''\<rparr>))) 1 db'
          = (Inr \<lparr>ID = 1, Title = ''T'', Description = ''D'', AffectedService = ''S'',
                 AISeverity = ''High'', AICategory = ''Database'',
                 CreatedAt = 41000000000, UpdatedAt = 42000000000\<rparr>, db'))"
proof -
  let ?ai = "MockAIService (Inr \<lparr>Severity = ''High'', Category = ''Database''\<rparr>)"
  let ?a = "\<lparr>Severity = ''High'', Category = ''Database''\<rparr>"
  have h1: "failure empty_db (INSERT \<lparr>ID = 0, Title = ''T'', Description = ''D'',
      AffectedService = ''S'', AISeverity = Severity ?a, AICategory = Category ?a,
      CreatedAt = 41250000000, UpdatedAt = 41750000000\<rparr>) = None"
    by (simp add: empty_db_def)
  have h2: "failure empty_db (SELECT_WHERE_id (auto_increment empty_db)) = None"
    by (simp add: empty_db_def)
  have h3: "scan_failure empty_db \<lparr>ID = auto_increment empty_db, Title = ''T'',
      Description = ''D'', AffectedService = ''S'', AISeverity = Severity ?a,
      AICategory = Category ?a, CreatedAt = timestamp_column empty_db 41250000000,
      UpdatedAt = timestamp_column empty_db 41750000000\<rparr> = None"
    by (simp add: empty_db_def)
  have h5: "AnalyzeIncident ?ai ''T'' ''D'' ''S'' = Inr ?a"
    by (simp add: MockAIService_def)
  have a: "auto_increment empty_db = 1" "table_incidents empty_db = []"
    "timestamp_column empty_db 41250000000 = 41000000000"
    "timestamp_column empty_db 41750000000 = 42000000000"
    by (simp_all add: empty_db_def whole_seconds_def)
  show ?thesis
    using db_wf_empty h5 create_round_trip [OF h1 h2 h3 db_wf_empty h5]
    by (auto simp: a)
qed

text \<open>The record \<open>CreateIncident\<close> returns carries the clock readings themselves; the stored
  and fetched record carries what the columns keep of them.\<close>

lemma created_and_fetched_timestamps:
  "CreatedAt \<lparr>ID = 1, Title = ''T'', Description = ''D'', AffectedService = ''S'',
      AISeverity = ''High'', AICategory = ''Database'',
      CreatedAt = 41250000000, UpdatedAt = 41750000000\<rparr> = 41250000000
   \<and> whole_seconds 41250000000 = 41000000000 \<and> whole_seconds 41750000000 = 42000000000"
  by (simp add: whole_seconds_def)

text \<open>
  C8. A successful \<open>UpdateIncident\<close> returns the fetched record with title, description,
  affected service, severity, category and update time overwritten and nothing else: the id
  and the creation time are those of the fetched record. In the table the ids and the creation
  times of all rows, and the key counter, are what they were.
\<close>

theorem update_keeps_id_and_creation:
  assumes "UpdateIncident (NewIncidentUseCase NewMySQLIncidentRepository ai) i req now db
             = (Inr incident, db')"
  shows "\<exists>fetched analysis.
      GetIncident (NewIncidentUseCase NewMySQLIncidentRepository ai) i db = (Inr fetched, db)
    \<and> AnalyzeIncident ai (reqTitle req) (reqDescription req) (reqAffectedService req) = Inr analysis
    \<and> incident = fetched\<lparr>Title := reqTitle req, Description := reqDescription req,
          AffectedService := reqAffectedService req, AISeverity := Severity analysis,
          AICategory := Category analysis, UpdatedAt := now\<rparr>
    \<and> ID incident = ID fetched \<and> ID incident = i \<and> CreatedAt incident = CreatedAt fetched
    \<and> map ID (table_incidents db') = map ID (table_incidents db)
    \<and> map CreatedAt (table_incidents db') = map CreatedAt (table_incidents db)
    \<and> auto_increment db' = auto_increment db"
  using assms
  by (auto simp: UpdateIncident_def GetIncident_def NewIncidentUseCase_def
        NewMySQLIncidentRepository_def MySQLIncidentRepository_Update_def
        MySQLIncidentRepository_GetByID_def Exec_UPDATE_def RowsAffected_def
        QueryRow_SELECT_by_id_def Scan_def SET_columns_def Let_def
        split: prod.splits sum.splits option.splits if_splits dest: find_Some_ID)

theorem update_keeps_id_and_creation_witness:
  "UpdateIncident (NewIncidentUseCase NewMySQLIncidentRepository
        (MockAIService (Inr \<lparr>Severity = ''High'', Category = ''Network''\<rparr>)))
        2 sample_request 100250000000 sample_db
     = (Inr (sample_row 2 90\<lparr>Title := ''Updated Incident'',
               Description := ''Updated Description'', AffectedService := ''Updated Service'',
               AISeverity := ''High'', AICategory := ''Network'', UpdatedAt := 100250000000\<rparr>),
        sample_db\<lparr>table_incidents := [sample_row 1 20,
            sample_row 2 90\<lparr>Title := ''Updated Incident'',
               Description := ''Updated Description'', AffectedService := ''Updated Service'',
               AISeverity := ''High'', AICategory := ''Network'', UpdatedAt := 100000000000\<rparr>,
            sample_row 3 50]\<rparr>)
   \<and> GetIncident (NewIncidentUseCase NewMySQLIncidentRepository
        (MockAIService (Inr \<lparr>Severity = ''High'', Category = ''Network''\<rparr>))) 2 sample_db
     = (Inr (sample_row 2 90), sample_db)
   \<and> ID (sample_row 2 90\<lparr>Title := ''Updated Incident'',
               Description := ''Updated Description'', AffectedService := ''Updated Service'',
               AISeverity := ''High'', AICategory := ''Network'', UpdatedAt := 100250000000\<rparr>) = 2
   \<and> CreatedAt (sample_row 2 90\<lparr>Title := ''Updated Incident'',
               Description := ''Updated Description'', AffectedService := ''Updated Service'',
               AISeverity := ''High'', AICategory := ''Network'', UpdatedAt := 100250000000\<rparr>)
       = 90000000000"
proof -
  let ?ai = "MockAIService (Inr \<lparr>Severity = ''High'', Category = ''Network''\<rparr>)"
  let ?inc = "sample_row 2 90\<lparr>Title := ''Updated Incident'',
               Description := ''Updated Description'', AffectedService := ''Updated Service'',
               AISeverity := ''High'', AICategory := ''Network'', UpdatedAt := 100250000000\<rparr>"
  let ?row = "sample_row 2 90\<lparr>Title := ''Updated Incident'',
               Description := ''Updated Description'', AffectedService := ''Updated Service'',
               AISeverity := ''High'', AICategory := ''Network'', UpdatedAt := 100000000000\<rparr>"
  let ?db' = "sample_db\<lparr>table_incidents := [sample_row 1 20, ?row, sample_row 3 50]\<rparr>"
  have h: "UpdateIncident (NewIncidentUseCase NewMySQLIncidentRepository ?ai)
             2 sample_request 100250000000 sample_db = (Inr ?inc, ?db')"
    by (simp add: UpdateIncident_def NewIncidentUseCase_def NewMySQLIncidentRepository_def
        MySQLIncidentRepository_Update_def MySQLIncidentRepository_GetByID_def Exec_UPDATE_def
        RowsAffected_def QueryRow_SELECT_by_id_def Scan_def SET_columns_def Let_def
        MockAIService_def whole_seconds_def sample_db_def sample_row_def sample_request_def)
  have g: "GetIncident (NewIncidentUseCase NewMySQLIncidentRepository ?ai) 2 sample_db
             = (Inr (sample_row 2 90), sample_db)"
    by (simp add: GetIncident_def NewIncidentUseCase_def NewMySQLIncidentRepository_def
        MySQLIncidentRepository_GetByID_def QueryRow_SELECT_by_id_def Scan_def sample_db_def
        sample_row_def)
  show ?thesis
    using h g update_keeps_id_and_creation [OF h] by (simp add: sample_row_def)
qed

section \<open>Properties of the classifier client\<close>

lemma contains_str_set: "contains_str slice item \<longleftrightarrow> item \<in> set slice"
  by (induction slice) auto

lemma AnalyzeIncident_parsed:
  assumes "CreateChatCompletion (client s) (analysisRequest t d a) = Inr resp"
    and "Choices resp \<noteq> []"
    and "Unmarshal (TrimSpace (Content (Message (Choices resp ! 0)))) = Inr parsed"
  shows "OpenAIService_AnalyzeIncident s t d a =
     Inr \<lparr>Severity = (if Severity parsed \<in> set validSeverities then Severity parsed else ''Medium''),
          Category = (if Category parsed \<in> set validCategories then Category parsed else ''Software'')\<rparr>"
  using assms
  by (cases parsed) (simp add: OpenAIService_AnalyzeIncident_def Let_def contains_str_set)

lemma AnalyzeIncident_unparsed:
  assumes "CreateChatCompletion (client s) (analysisRequest t d a) = Inr resp"
    and "Choices resp \<noteq> []"
    and "Unmarshal (TrimSpace (Content (Message (Choices resp ! 0)))) = Inl reason"
  shows "OpenAIService_AnalyzeIncident s t d a = Inl (Wrap ''failed to parse AI response'' reason)"
  using assms by (simp add: OpenAIService_AnalyzeIncident_def Let_def)

lemma AnalyzeIncident_valid:
  assumes "OpenAIService_AnalyzeIncident s t d a = Inr r"
  shows "Severity r \<in> set validSeverities \<and> Category r \<in> set validCategories"
  using assms
  by (auto simp: OpenAIService_AnalyzeIncident_def Let_def contains_str_set validSeverities_def
      validCategories_def split: sum.splits if_splits)

lemma decodeMember_saved:
  "snd (decodeMember (a, saved) m) = None \<longleftrightarrow> saved = None \<and> \<not> mismatch m"
  by (cases m; cases "snd m")
     (auto simp: mismatch_def saveError_def split: option.splits json.splits)

lemma foldl_decodeMember_saved:
  "snd (foldl decodeMember acc ms) = None \<longleftrightarrow> snd acc = None \<and> \<not> list_ex mismatch ms"
proof (induction ms arbitrary: acc)
  case Nil
  then show ?case by simp
next
  case (Cons m ms)
  obtain a saved where acc: "acc = (a, saved)" by (cases acc)
  show ?case
    using Cons.IH [of "decodeMember acc m"] decodeMember_saved [of a saved m]
    by (auto simp: acc)
qed

lemma foldl_decodeMember_kind:
  "snd (foldl decodeMember acc ms) = Some e \<Longrightarrow> snd acc = None \<Longrightarrow> \<exists>k. e = UnmarshalTypeError k"
proof (induction ms arbitrary: acc)
  case Nil
  then show ?case by simp
next
  case (Cons m ms)
  obtain a saved where acc: "acc = (a, saved)" by (cases acc)
  obtain key v where m: "m = (key, v)" by (cases m)
  show ?case
  proof (cases "snd (decodeMember acc m)")
    case None
    then show ?thesis using Cons by simp
  next
    case (Some e')
    have e': "\<exists>k. e' = UnmarshalTypeError k"
      using Some Cons.prems(2)
      by (auto simp: acc m saveError_def split: option.splits json.splits)
    have keep: "snd (foldl decodeMember acc' ms') = Some e'" if "snd acc' = Some e'" for acc' ms'
      using that
    proof (induction ms' arbitrary: acc')
      case Nil
      then show ?case by simp
    next
      case (Cons m' ms')
      obtain a' where "acc' = (a', Some e')" using Cons.prems by (cases acc') auto
      then have "snd (decodeMember acc' m') = Some e'"
        by (cases m') (auto simp: saveError_def split: option.splits json.splits)
      then show ?case using Cons.IH by simp
    qed
    have "snd (foldl decodeMember (decodeMember acc m) ms) = Some e'"
      using keep [OF Some] .
    then show ?thesis using Cons.prems(1) e' by simp
  qed
qed

lemma decodeValue_Inr_iff: "(\<exists>a. decodeValue v = Inr a) \<longleftrightarrow> \<not> wrongType v"
proof (cases v)
  case (JObject ms)
  obtain a saved where f: "foldl decodeMember (\<lparr>Severity = [], Category = []\<rparr>, None) ms = (a, saved)"
    by (cases "foldl decodeMember (\<lparr>Severity = [], Category = []\<rparr>, None) ms")
  have "saved = None \<longleftrightarrow> \<not> list_ex mismatch ms"
    using foldl_decodeMember_saved [of "(\<lparr>Severity = [], Category = []\<rparr>, None)" ms] f by simp
  then show ?thesis
    using f by (cases saved) (auto simp: decodeValue_def JObject)
qed (simp_all add: decodeValue_def)

lemma decodeValue_Inl_kind: "decodeValue v = Inl e \<Longrightarrow> \<exists>k. e = UnmarshalTypeError k"
proof (cases v)
  case (JObject ms)
  assume d: "decodeValue v = Inl e"
  obtain a saved where f: "foldl decodeMember (\<lparr>Severity = [], Category = []\<rparr>, None) ms = (a, saved)"
    by (cases "foldl decodeMember (\<lparr>Severity = [], Category = []\<rparr>, None) ms")
  have "saved = Some e"
    using d f by (cases saved) (auto simp: decodeValue_def JObject)
  then show ?thesis
    using foldl_decodeMember_kind [of "(\<lparr>Severity = [], Category = []\<rparr>, None)" ms e] f by simp
qed (auto simp: decodeValue_def)

lemma Unmarshal_Inl_iff:
  "(\<exists>reason. Unmarshal data = Inl reason) \<longleftrightarrow>
     json_parse data = None \<or> (\<exists>v. json_parse data = Some v \<and> wrongType v)"
proof (cases "json_parse data")
  case None
  then show ?thesis by (simp add: Unmarshal_def)
next
  case (Some v)
  have "(\<exists>reason. decodeValue v = Inl reason) \<longleftrightarrow> wrongType v"
    using decodeValue_Inr_iff [of v] by (cases "decodeValue v") auto
  then show ?thesis using Some by (simp add: Unmarshal_def)
qed

lemma Unmarshal_Inl_reason:
  "Unmarshal data = Inl reason \<Longrightarrow> reason = SyntaxError \<or> (\<exists>k. reason = UnmarshalTypeError k)"
  by (auto simp: Unmarshal_def split: option.splits dest: decodeValue_Inl_kind)

lemma setField_keeps_Severity: "f \<noteq> severity \<Longrightarrow> Severity (setField f s a) = Severity a"
  by (cases f) simp_all

lemma setField_keeps_Category: "f \<noteq> category \<Longrightarrow> Category (setField f s a) = Category a"
  by (cases f) simp_all

lemma decodeMember_omits_severity:
  "fieldByName (fst m) \<noteq> Some severity \<Longrightarrow> Severity (fst (decodeMember acc m)) = Severity (fst acc)"
  by (cases m; cases acc)
     (auto simp: setField_keeps_Severity split: option.splits json.splits)

lemma decodeMember_omits_category:
  "fieldByName (fst m) \<noteq> Some category \<Longrightarrow> Category (fst (decodeMember acc m)) = Category (fst acc)"
  by (cases m; cases acc)
     (auto simp: setField_keeps_Category split: option.splits json.splits)

lemma foldl_omits_severity:
  "omits severity ms \<Longrightarrow> Severity (fst (foldl decodeMember acc ms)) = Severity (fst acc)"
  by (induction ms arbitrary: acc) (simp_all add: omits_def decodeMember_omits_severity)

lemma foldl_omits_category:
  "omits category ms \<Longrightarrow> Category (fst (foldl decodeMember acc ms)) = Category (fst acc)"
  by (induction ms arbitrary: acc) (simp_all add: omits_def decodeMember_omits_category)

lemma omits_no_mismatch: "omits severity ms \<Longrightarrow> omits category ms \<Longrightarrow> \<not> list_ex mismatch ms"
proof (induction ms)
  case Nil
  then show ?case by simp
next
  case (Cons m ms)
  have "fieldByName (fst m) = None"
    using Cons.prems by (cases "fieldByName (fst m)") (auto simp: omits_def intro: field.exhaust)
  then show ?case using Cons by (simp add: omits_def mismatch_def)
qed

lemma decodeValue_object:
  assumes "\<not> list_ex mismatch ms"
  shows "decodeValue (JObject ms) = Inr (fst (foldl decodeMember (\<lparr>Severity = [], Category = []\<rparr>, None) ms))"
proof -
  obtain a saved where f: "foldl decodeMember (\<lparr>Severity = [], Category = []\<rparr>, None) ms = (a, saved)"
    by (cases "foldl decodeMember (\<lparr>Severity = [], Category = []\<rparr>, None) ms")
  have "saved = None"
    using foldl_decodeMember_saved [of "(\<lparr>Severity = [], Category = []\<rparr>, None)" ms] f assms by simp
  then show ?thesis using f by (simp add: decodeValue_def)
qed

lemma empty_not_severity: "[] \<notin> set validSeverities"
  by (simp add: validSeverities_def)

lemma empty_not_category: "[] \<notin> set validCategories"
  by (simp add: validCategories_def)

text \<open>Evaluation of the parser on the sample texts.\<close>

lemmas json_eval = getu4_def hexval_def EncodeRune_def DecodeRune_size_def secondByteOk_def
  isCont_def char_of_def bit_0 isSpace_def isDigit_def
  isNumberChar_def validNumber_def validFraction_def validExponent_def json_parse_def
  pushFrame_def maxNestingDepth_def Unmarshal_def decodeValue_def fieldByName_def toUpper_def
  saveError_def TrimSpace_def asciiSpace_def space2_def space3_def

lemma Unmarshal_invalid_severity:
  "Unmarshal (TrimSpace completion_invalid_severity) = Inr \<lparr>Severity = ''Invalid'', Category = ''Software''\<rparr>"
  by (simp add: completion_invalid_severity_def json_eval)

lemma parse_wrong_type:
  "json_parse (TrimSpace completion_wrong_type) =
     Some (JObject [(''severity'', JNumber ''5''), (''category'', JString ''Software'')])"
  by (simp add: completion_wrong_type_def json_eval)

lemma parse_malformed: "json_parse (TrimSpace completion_malformed) = None"
  by (simp add: completion_malformed_def json_eval)

lemma parse_empty_object: "json_parse (TrimSpace ''{}'') = Some (JObject [])"
  by (simp add: json_eval)

text \<open>A byte that begins no well-formed sequence becomes U+FFFD (EF BF BD); the two bytes of
  U+017F are kept, and the key they spell selects the severity field.\<close>

lemma unquote_ill_formed:
  "unquote [CHR ''a'', CHR 0xFF, CHR 0xC5, CHR 0xBF, CHR 0xC5]
     = Some [CHR ''a'', CHR 0xEF, CHR 0xBF, CHR 0xBD, CHR 0xC5, CHR 0xBF, CHR 0xEF, CHR 0xBF,
             CHR 0xBD]"
  by (simp add: json_eval)

lemma long_s_selects_severity:
  "fieldByName ([CHR 0xC5, CHR 0xBF] @ ''everity'') = Some severity"
  by (simp add: fieldByName_def toUpper_def char_of_def bit_0)

lemma Mock_answer:
  "CreateChatCompletion (client \<lparr>client = MockOpenAIClient (Inr c)\<rparr>) req
     = Inr \<lparr>Choices = [\<lparr>Message = \<lparr>Role = [], Content = c\<rparr>\<rparr>]\<rparr>"
  by (simp add: MockOpenAIClient_def)

lemma list_all_validEnums_SET:
  assumes "list_all validEnums rows" and "validEnums incident"
  shows "list_all validEnums
           (map (\<lambda>row. if ID row = ID incident then SET_columns db incident row else row) rows)"
  using assms by (induction rows) (auto simp: validEnums_def SET_columns_def)

lemma Create_keeps_validEnums:
  assumes "list_all validEnums (table_incidents db)" and "validEnums incident"
  shows "list_all validEnums (table_incidents (snd (MySQLIncidentRepository_Create incident db)))"
  using assms
  by (auto simp: MySQLIncidentRepository_Create_def Exec_INSERT_def LastInsertId_def validEnums_def
      split: option.splits)

lemma Update_keeps_validEnums:
  assumes "list_all validEnums (table_incidents db)" and "validEnums incident"
  shows "list_all validEnums (table_incidents (snd (MySQLIncidentRepository_Update incident db)))"
  using list_all_validEnums_SET [OF assms]
  by (auto simp: MySQLIncidentRepository_Update_def Exec_UPDATE_def RowsAffected_def assms(1)
      split: option.splits)

section \<open>The tests of the repository on the embedding\<close>

lemmas analyze_eval = OpenAIService_AnalyzeIncident_def MockOpenAIClient_def Let_def
  validSeverities_def validCategories_def

lemma test_successful_analysis:
  "OpenAIService_AnalyzeIncident \<lparr>client = MockOpenAIClient (Inr completion_successful)\<rparr>
     ''Database timeout'' ''Users unable to login'' ''Auth Service''
   = Inr \<lparr>Severity = ''High'', Category = ''Database''\<rparr>"
  by (simp add: analyze_eval completion_successful_def json_eval)

lemma test_invalid_category_fallback:
  "OpenAIService_AnalyzeIncident \<lparr>client = MockOpenAIClient (Inr completion_invalid_category)\<rparr>
     ''Network issue'' ''Connection lost'' ''Network Service''
   = Inr \<lparr>Severity = ''High'', Category = ''Software''\<rparr>"
  by (simp add: analyze_eval completion_invalid_category_def json_eval)

lemma test_AI_service_error:
  "OpenAIService_AnalyzeIncident \<lparr>client = MockOpenAIClient (Inl (ErrorString ''API error''))\<rparr>
     ''Test incident'' ''Test description'' ''Test Service''
   = Inl (Wrap ''failed to get AI analysis'' (ErrorString ''API error''))"
  by (simp add: analyze_eval)

lemma no_choices:
  "OpenAIService_AnalyzeIncident \<lparr>client = \<lparr>CreateChatCompletion = (\<lambda>req. Inr \<lparr>Choices = []\<rparr>)\<rparr>\<rparr>
     ''Test incident'' ''Test description'' ''Test Service''
   = Inl (ErrorString ''no response from AI service'')"
  by (simp add: analyze_eval)

lemma test_contains:
  "contains_str [''a'', ''b'', ''c''] ''a'' \<and> contains_str [''a'', ''b'', ''c''] ''b''
   \<and> contains_str [''a'', ''b'', ''c''] ''c'' \<and> \<not> contains_str [''a'', ''b'', ''c''] ''d''
   \<and> \<not> contains_str [''a'', ''b'', ''c''] []"
  by simp

lemma folded_keys_select_fields:
  "OpenAIService_AnalyzeIncident \<lparr>client = MockOpenAIClient (Inr completion_folded_keys)\<rparr>
     ''t'' ''d'' ''s''
   = Inr \<lparr>Severity = ''Low'', Category = ''Network''\<rparr>"
  by (simp add: analyze_eval completion_folded_keys_def json_eval)

lemma Itoa_examples: "Itoa 0 = ''0'' \<and> Itoa 42 = ''42'' \<and> Itoa (- 7) = ''-7''"
  by (simp add: Itoa_def natToStr.simps)

section \<open>Claims on the classifier client\<close>

text \<open>
  C1. When the first completion's text, trimmed, is decoded by \<open>json.Unmarshal\<close> without
  error, \<open>AnalyzeIncident\<close> succeeds and treats the two fields independently: the severity is
  the decoded one when it is one of Low, Medium, High, Critical and \<open>Medium\<close> otherwise; the
  category is the decoded one when it is one of Network, Software, Hardware, Security,
  Database, Application, Infrastructure and \<open>Software\<close> otherwise. Neither result depends on
  the other field. The witness is the second case of the service test.
\<close>

theorem fallback_policy_per_field:
  assumes "CreateChatCompletion (client s) (analysisRequest t d a) = Inr resp"
    and "Choices resp \<noteq> []"
    and "Unmarshal (TrimSpace (Content (Message (Choices resp ! 0)))) = Inr parsed"
  shows "\<exists>r. OpenAIService_AnalyzeIncident s t d a = Inr r
     \<and> Severity r =
         (if Severity parsed \<in> {''Low'', ''Medium'', ''High'', ''Critical''}
          then Severity parsed else ''Medium'')
     \<and> Category r =
         (if Category parsed \<in> {''Network'', ''Software'', ''Hardware'', ''Security'',
                                 ''Database'', ''Application'', ''Infrastructure''}
          then Category parsed else ''Software'')"
  using AnalyzeIncident_parsed [OF assms]
  by (simp add: validSeverities_def validCategories_def)

theorem fallback_policy_per_field_witness:
  "Unmarshal (TrimSpace completion_invalid_severity)
     = Inr \<lparr>Severity = ''Invalid'', Category = ''Software''\<rparr>
   \<and> OpenAIService_AnalyzeIncident \<lparr>client = MockOpenAIClient (Inr completion_invalid_severity)\<rparr>
        ''Minor issue'' ''Small bug'' ''UI Service''
     = Inr \<lparr>Severity = ''Medium'', Category = ''Software''\<rparr>"
proof -
  let ?s = "\<lparr>client = MockOpenAIClient (Inr completion_invalid_severity)\<rparr>"
  let ?resp = "\<lparr>Choices = [\<lparr>Message = \<lparr>Role = [], Content = completion_invalid_severity\<rparr>\<rparr>]\<rparr>"
  have h1: "CreateChatCompletion (client ?s) (analysisRequest ''Minor issue'' ''Small bug'' ''UI Service'') = Inr ?resp"
    by (rule Mock_answer)
  have h2: "Choices ?resp \<noteq> []" by simp
  have h3: "Unmarshal (TrimSpace (Content (Message (Choices ?resp ! 0))))
     = Inr \<lparr>Severity = ''Invalid'', Category = ''Software''\<rparr>"
    using Unmarshal_invalid_severity by simp
  obtain r where r: "OpenAIService_AnalyzeIncident ?s ''Minor issue'' ''Small bug'' ''UI Service'' = Inr r"
      "Severity r = ''Medium''" "Category r = ''Software''"
    using fallback_policy_per_field [OF h1 h2 h3] by auto
  then have "r = \<lparr>Severity = ''Medium'', Category = ''Software''\<rparr>" by (cases r) simp
  with r Unmarshal_invalid_severity show ?thesis by simp
qed

text \<open>
  C2, as stated, fails: a completion text that misses both fields is decoded without error
  and the defaults are returned.
\<close>

theorem missing_fields_are_not_an_error:
  "json_parse (TrimSpace ''{}'') = Some (JObject [])
   \<and> OpenAIService_AnalyzeIncident \<lparr>client = MockOpenAIClient (Inr ''{}'')\<rparr>
        ''Test incident'' ''Test description'' ''Test Service''
     = Inr \<lparr>Severity = ''Medium'', Category = ''Software''\<rparr>"
  by (simp add: OpenAIService_AnalyzeIncident_def MockOpenAIClient_def Let_def validSeverities_def
      validCategories_def json_eval)

text \<open>
  C2, amended. When the trimmed text of the first completion is not well-formed JSON,
  \<open>AnalyzeIncident\<close> returns the error \<open>failed to parse AI response\<close> wrapping a syntax error;
  when it is well-formed and of a wrong type (a top-level value that is neither an object nor
  \<open>null\<close>, or a severity or category member that is neither a string nor \<open>null\<close>), it returns
  that error wrapping a type error; no default is substituted in either case. Every other
  well-formed text, a text with missing fields among them, is no parse failure:
  \<open>AnalyzeIncident\<close> succeeds on it.
\<close>

theorem parse_failure_is_an_error:
  assumes "CreateChatCompletion (client s) (analysisRequest t d a) = Inr resp"
    and "Choices resp \<noteq> []"
    and "content = TrimSpace (Content (Message (Choices resp ! 0)))"
  shows "(json_parse content = None \<longrightarrow>
            OpenAIService_AnalyzeIncident s t d a
              = Inl (Wrap ''failed to parse AI response'' SyntaxError))
       \<and> ((\<exists>v. json_parse content = Some v \<and> wrongType v) \<longrightarrow>
            (\<exists>kind. OpenAIService_AnalyzeIncident s t d a
              = Inl (Wrap ''failed to parse AI response'' (UnmarshalTypeError kind))))
       \<and> ((\<exists>v. json_parse content = Some v \<and> \<not> wrongType v) \<longrightarrow>
            (\<exists>r. OpenAIService_AnalyzeIncident s t d a = Inr r))"
proof (intro conjI impI)
  assume "json_parse content = None"
  then have "Unmarshal content = Inl SyntaxError" by (simp add: Unmarshal_def)
  then show "OpenAIService_AnalyzeIncident s t d a = Inl (Wrap ''failed to parse AI response'' SyntaxError)"
    using AnalyzeIncident_unparsed [OF assms(1,2)] assms(3) by simp
next
  assume "\<exists>v. json_parse content = Some v \<and> wrongType v"
  then obtain reason where u: "Unmarshal content = Inl reason"
    using Unmarshal_Inl_iff [of content] by auto
  moreover have "reason \<noteq> SyntaxError"
    using u \<open>\<exists>v. json_parse content = Some v \<and> wrongType v\<close>
    by (auto simp: Unmarshal_def dest: decodeValue_Inl_kind)
  ultimately obtain kind where "Unmarshal content = Inl (UnmarshalTypeError kind)"
    using Unmarshal_Inl_reason [of content reason] by auto
  then show "\<exists>kind. OpenAIService_AnalyzeIncident s t d a
              = Inl (Wrap ''failed to parse AI response'' (UnmarshalTypeError kind))"
    using AnalyzeIncident_unparsed [OF assms(1,2)] assms(3) by auto
next
  assume "\<exists>v. json_parse content = Some v \<and> \<not> wrongType v"
  then have "\<not> (\<exists>reason. Unmarshal content = Inl reason)"
    using Unmarshal_Inl_iff [of content] by auto
  then obtain parsed where "Unmarshal content = Inr parsed"
    by (cases "Unmarshal content") auto
  then show "\<exists>r. OpenAIService_AnalyzeIncident s t d a = Inr r"
    using AnalyzeIncident_parsed [OF assms(1,2)] assms(3) by simp
qed

theorem parse_failure_is_an_error_witness:
  "json_parse (TrimSpace completion_malformed) = None
   \<and> OpenAIService_AnalyzeIncident \<lparr>client = MockOpenAIClient (Inr completion_malformed)\<rparr>
        ''Test incident'' ''Test description'' ''Test Service''
     = Inl (Wrap ''failed to parse AI response'' SyntaxError)
   \<and> wrongType (JObject [(''severity'', JNumber ''5''), (''category'', JString ''Software'')])
   \<and> OpenAIService_AnalyzeIncident \<lparr>client = MockOpenAIClient (Inr completion_wrong_type)\<rparr>
        ''Test incident'' ''Test description'' ''Test Service''
     = Inl (Wrap ''failed to parse AI response'' (UnmarshalTypeError ''number''))"
proof -
  let ?s = "\<lparr>client = MockOpenAIClient (Inr completion_malformed)\<rparr>"
  let ?resp = "\<lparr>Choices = [\<lparr>Message = \<lparr>Role = [], Content = completion_malformed\<rparr>\<rparr>]\<rparr>"
  have h1: "CreateChatCompletion (client ?s)
      (analysisRequest ''Test incident'' ''Test description'' ''Test Service'') = Inr ?resp"
    by (rule Mock_answer)
  have h2: "Choices ?resp \<noteq> []" by simp
  have h3: "TrimSpace completion_malformed = TrimSpace (Content (Message (Choices ?resp ! 0)))"
    by simp
  have w: "wrongType (JObject [(''severity'', JNumber ''5''), (''category'', JString ''Software'')])"
    by (simp add: mismatch_def fieldByName_def)
  have e: "OpenAIService_AnalyzeIncident \<lparr>client = MockOpenAIClient (Inr completion_wrong_type)\<rparr>
        ''Test incident'' ''Test description'' ''Test Service''
     = Inl (Wrap ''failed to parse AI response'' (UnmarshalTypeError ''number''))"
    by (simp add: OpenAIService_AnalyzeIncident_def MockOpenAIClient_def Let_def
        completion_wrong_type_def json_eval)
  show ?thesis
    using parse_failure_is_an_error [OF h1 h2 h3] parse_malformed w e by simp
qed

text \<open>
  C10. When the trimmed text of the first completion is a JSON object: if none of its keys
  selects the severity field nor the category field, \<open>AnalyzeIncident\<close> returns severity
  \<open>Medium\<close> and category \<open>Software\<close> and no error; if only the severity is omitted and no
  member has a wrong type, it succeeds with severity \<open>Medium\<close>; if only the category is
  omitted and no member has a wrong type, it succeeds with category \<open>Software\<close>. The witness is
  the text \<open>{}\<close>.
\<close>

theorem omitted_fields_get_defaults:
  assumes "CreateChatCompletion (client s) (analysisRequest t d a) = Inr resp"
    and "Choices resp \<noteq> []"
    and "json_parse (TrimSpace (Content (Message (Choices resp ! 0)))) = Some (JObject ms)"
  shows "(omits severity ms \<and> omits category ms \<longrightarrow>
            OpenAIService_AnalyzeIncident s t d a = Inr \<lparr>Severity = ''Medium'', Category = ''Software''\<rparr>)
       \<and> (omits severity ms \<and> \<not> wrongType (JObject ms) \<longrightarrow>
            (\<exists>c. OpenAIService_AnalyzeIncident s t d a = Inr \<lparr>Severity = ''Medium'', Category = c\<rparr>))
       \<and> (omits category ms \<and> \<not> wrongType (JObject ms) \<longrightarrow>
            (\<exists>v. OpenAIService_AnalyzeIncident s t d a = Inr \<lparr>Severity = v, Category = ''Software''\<rparr>))"
proof -
  let ?zero = "(\<lparr>Severity = [], Category = []\<rparr>, None :: error option)"
  let ?parsed = "fst (foldl decodeMember ?zero ms)"
  have ok: "OpenAIService_AnalyzeIncident s t d a =
     Inr \<lparr>Severity = (if Severity ?parsed \<in> set validSeverities then Severity ?parsed else ''Medium''),
          Category = (if Category ?parsed \<in> set validCategories then Category ?parsed else ''Software'')\<rparr>"
    if "\<not> list_ex mismatch ms"
    using AnalyzeIncident_parsed [OF assms(1,2), of ?parsed] assms(3) decodeValue_object [OF that]
    by (simp add: Unmarshal_def)
  have sev: "Severity ?parsed = []" if "omits severity ms"
    using foldl_omits_severity [OF that, of ?zero] by simp
  have cat: "Category ?parsed = []" if "omits category ms"
    using foldl_omits_category [OF that, of ?zero] by simp
  show ?thesis
    using ok sev cat omits_no_mismatch [of ms] empty_not_severity empty_not_category
    by auto
qed

theorem omitted_fields_get_defaults_witness:
  "json_parse (TrimSpace ''{}'') = Some (JObject [])
   \<and> omits severity [] \<and> omits category []
   \<and> OpenAIService_AnalyzeIncident \<lparr>client = MockOpenAIClient (Inr ''{}'')\<rparr>
        ''Test incident'' ''Test description'' ''Test Service''
     = Inr \<lparr>Severity = ''Medium'', Category = ''Software''\<rparr>"
proof -
  let ?s = "\<lparr>client = MockOpenAIClient (Inr ''{}'')\<rparr>"
  let ?resp = "\<lparr>Choices = [\<lparr>Message = \<lparr>Role = [], Content = ''{}''\<rparr>\<rparr>]\<rparr>"
  have h1: "CreateChatCompletion (client ?s)
      (analysisRequest ''Test incident'' ''Test description'' ''Test Service'') = Inr ?resp"
    by (rule Mock_answer)
  have h2: "Choices ?resp \<noteq> []" by simp
  have h3: "json_parse (TrimSpace (Content (Message (Choices ?resp ! 0)))) = Some (JObject [])"
    using parse_empty_object by simp
  have o: "omits severity [] \<and> omits category []"
    by (simp add: omits_def)
  show ?thesis
    using omitted_fields_get_defaults [OF h1 h2 h3] parse_empty_object o by simp
qed

text \<open>
  C4. With the OpenAI service as classifier and the MySQL repository as store, if every row
  of the table has its severity and its category in the enumerations, so has every row after
  \<open>CreateIncident\<close> and after \<open>UpdateIncident\<close>, and so has the incident either returns. The
  repository and the database of this development check nothing: the invariant comes from the
  fallback of \<open>AnalyzeIncident\<close>.
\<close>

theorem persisted_enums_are_valid:
  assumes "list_all validEnums (table_incidents db)"
  shows "list_all validEnums (table_incidents (snd
           (CreateIncident (NewIncidentUseCase NewMySQLIncidentRepository (asAIService s))
              req now1 now2 db)))
       \<and> list_all validEnums (table_incidents (snd
           (UpdateIncident (NewIncidentUseCase NewMySQLIncidentRepository (asAIService s))
              i req now db)))
       \<and> (case fst (CreateIncident (NewIncidentUseCase NewMySQLIncidentRepository (asAIService s))
              req now1 now2 db) of
            Inl err \<Rightarrow> True | Inr incident \<Rightarrow> validEnums incident)
       \<and> (case fst (UpdateIncident (NewIncidentUseCase NewMySQLIncidentRepository (asAIService s))
              i req now db) of
            Inl err \<Rightarrow> True | Inr incident \<Rightarrow> validEnums incident)"
proof (cases "OpenAIService_AnalyzeIncident s (reqTitle req) (reqDescription req) (reqAffectedService req)")
  case (Inl err)
  then show ?thesis
    using assms
    by (auto simp: CreateIncident_def UpdateIncident_def NewIncidentUseCase_def asAIService_def
        NewMySQLIncidentRepository_def MySQLIncidentRepository_GetByID_def
        split: sum.splits prod.splits)
next
  case (Inr analysis)
  have v: "Severity analysis \<in> set validSeverities \<and> Category analysis \<in> set validCategories"
    using AnalyzeIncident_valid [OF Inr] .
  let ?new = "\<lparr>ID = 0, Title = reqTitle req, Description = reqDescription req,
                 AffectedService = reqAffectedService req, AISeverity = Severity analysis,
                 AICategory = Category analysis, CreatedAt = now1, UpdatedAt = now2\<rparr>"
  have vn: "validEnums ?new" using v by (simp add: validEnums_def)
  have c1: "list_all validEnums (table_incidents (snd (MySQLIncidentRepository_Create ?new db)))"
    using Create_keeps_validEnums [OF assms vn] .
  have c: "list_all validEnums (table_incidents (snd
           (CreateIncident (NewIncidentUseCase NewMySQLIncidentRepository (asAIService s))
              req now1 now2 db)))
     \<and> (case fst (CreateIncident (NewIncidentUseCase NewMySQLIncidentRepository (asAIService s))
              req now1 now2 db) of
            Inl err \<Rightarrow> True | Inr incident \<Rightarrow> validEnums incident)"
    using c1 Inr vn
    by (auto simp: CreateIncident_def NewIncidentUseCase_def asAIService_def
        NewMySQLIncidentRepository_def Let_def MySQLIncidentRepository_Create_def
        Exec_INSERT_def LastInsertId_def validEnums_def
        split: prod.splits option.splits)
  have u: "list_all validEnums (table_incidents (snd
           (UpdateIncident (NewIncidentUseCase NewMySQLIncidentRepository (asAIService s))
              i req now db)))
     \<and> (case fst (UpdateIncident (NewIncidentUseCase NewMySQLIncidentRepository (asAIService s))
              i req now db) of
            Inl err \<Rightarrow> True | Inr incident \<Rightarrow> validEnums incident)"
  proof (cases "MySQLIncidentRepository_GetByID i db")
    case (Pair res db1)
    have db1: "db1 = db" using GetByID_reads_only [of i db] Pair by simp
    show ?thesis
    proof (cases res)
      case (Inl err)
      then show ?thesis
        using Pair db1 assms
        by (simp add: UpdateIncident_def NewIncidentUseCase_def asAIService_def
            NewMySQLIncidentRepository_def)
    next
      case (Inr fetched)
      let ?upd = "fetched\<lparr>Title := reqTitle req, Description := reqDescription req,
            AffectedService := reqAffectedService req, AISeverity := Severity analysis,
            AICategory := Category analysis, UpdatedAt := now\<rparr>"
      have vu: "validEnums ?upd" using v by (simp add: validEnums_def)
      have k: "list_all validEnums (table_incidents (snd (MySQLIncidentRepository_Update ?upd db)))"
        using Update_keeps_validEnums [OF assms vu] .
      have r: "fst (fst (MySQLIncidentRepository_Update ?upd db)) = None \<Longrightarrow>
               snd (fst (MySQLIncidentRepository_Update ?upd db)) = ?upd"
        by (auto simp: MySQLIncidentRepository_Update_def Exec_UPDATE_def RowsAffected_def
            split: option.splits if_splits)
      show ?thesis
        using Pair db1 Inr \<open>OpenAIService_AnalyzeIncident s (reqTitle req) (reqDescription req)
          (reqAffectedService req) = Inr analysis\<close> k r vu
        by (cases "MySQLIncidentRepository_Update ?upd db")
           (auto simp: UpdateIncident_def NewIncidentUseCase_def asAIService_def
            NewMySQLIncidentRepository_def Let_def split: option.splits)
    qed
  qed
  show ?thesis using c u by simp
qed

theorem persisted_enums_are_valid_witness:
  "list_all validEnums (table_incidents sample_db)
   \<and> list_all validEnums (table_incidents (snd
         (CreateIncident (NewIncidentUseCase NewMySQLIncidentRepository
            (asAIService \<lparr>client = MockOpenAIClient (Inr completion_invalid_severity)\<rparr>))
            sample_request 100 101 sample_db)))
   \<and> list_all validEnums (table_incidents (snd
         (UpdateIncident (NewIncidentUseCase NewMySQLIncidentRepository
            (asAIService \<lparr>client = MockOpenAIClient (Inr completion_invalid_severity)\<rparr>))
            2 sample_request 100 sample_db)))"
proof -
  have h: "list_all validEnums (table_incidents sample_db)"
    by (simp add: sample_db_def sample_row_def validEnums_def validSeverities_def
        validCategories_def)
  show ?thesis
    using h persisted_enums_are_valid [OF h,
      of "\<lparr>client = MockOpenAIClient (Inr completion_invalid_severity)\<rparr>"
         sample_request 100 101 2 100]
    by simp
qed

text \<open>The repository sends the values it is given: with a classifier that answers outside
  the enumerations (a test double of the use case tests' kind), the row is stored with that
  answer. The repository code adds no check of its own to the classifier's.\<close>

lemma repository_stores_what_it_is_given:
  "table_incidents (snd
     (CreateIncident (NewIncidentUseCase NewMySQLIncidentRepository
        (MockAIService (Inr \<lparr>Severity = ''Urgent'', Category = ''Other''\<rparr>)))
        sample_request 100000000000 101000000000 empty_db))
   = [\<lparr>ID = 1, Title = ''Updated Incident'', Description = ''Updated Description'',
       AffectedService = ''Updated Service'', AISeverity = ''Urgent'', AICategory = ''Other'',
       CreatedAt = 100000000000, UpdatedAt = 101000000000\<rparr>]"
  by (simp add: CreateIncident_def NewIncidentUseCase_def NewMySQLIncidentRepository_def
      MySQLIncidentRepository_Create_def Exec_INSERT_def LastInsertId_def MockAIService_def
      sample_request_def empty_db_def whole_seconds_def)

text \<open>
  C9. When \<open>OPENAI_API_KEY\<close> is not set, or set to the empty string, \<open>NewOpenAIService\<close>
  panics and no service exists on which \<open>AnalyzeIncident\<close> could be called; when it is set to a
  non-empty key, the constructor returns the service whose client is \<open>openai.NewClient\<close> of
  that key.
\<close>

theorem constructor_fails_fast:
  "(env ''OPENAI_API_KEY'' = None \<longrightarrow>
      NewOpenAIService NewClient env
        = Inl (Panic ''OPENAI_API_KEY environment variable is required''))
   \<and> (env ''OPENAI_API_KEY'' = Some [] \<longrightarrow>
      NewOpenAIService NewClient env
        = Inl (Panic ''OPENAI_API_KEY environment variable is required''))
   \<and> (\<forall>apiKey. env ''OPENAI_API_KEY'' = Some apiKey \<and> apiKey \<noteq> [] \<longrightarrow>
      NewOpenAIService NewClient env = Inr \<lparr>client = NewClient apiKey\<rparr>)"
  by (simp add: NewOpenAIService_def Getenv_def)

theorem constructor_fails_fast_witness:
  "NewOpenAIService (\<lambda>apiKey. MockOpenAIClient (Inl (ErrorString ''API error''))) Map.empty
     = Inl (Panic ''OPENAI_API_KEY environment variable is required'')
   \<and> NewOpenAIService (\<lambda>apiKey. MockOpenAIClient (Inl (ErrorString ''API error'')))
        [''OPENAI_API_KEY'' \<mapsto> ''test-key'']
     = Inr \<lparr>client = MockOpenAIClient (Inl (ErrorString ''API error''))\<rparr>"
  using constructor_fails_fast [of Map.empty "\<lambda>apiKey. MockOpenAIClient (Inl (ErrorString ''API error''))"]
    constructor_fails_fast [of "[''OPENAI_API_KEY'' \<mapsto> ''test-key'']"
       "\<lambda>apiKey. MockOpenAIClient (Inl (ErrorString ''API error''))"]
  by simp

end
